theory Spec2Isabelle
  imports Main "HOL-Library.Word" "HOL-Library.Monad_Syntax"
begin

section \<open>Byte strings and the library collaborators\<close>

text \<open>
  A \<^verbatim>\<open>Uint8Array\<close> (and the \<^verbatim>\<open>number[]\<close> form the application stores it in) is a list of
  8-bit words. A \<^verbatim>\<open>RelativeTimelock\<close> is the SDK's \<^verbatim>\<open>{type, value}\<close> object; an
  \<^verbatim>\<open>ArkAddress\<close> is used by the application only through \<^verbatim>\<open>pkScript\<close> and \<^verbatim>\<open>encode()\<close>.
\<close>

type_synonym bytes = "8 word list"

datatype timelock_type = blocks | seconds

record RelativeTimelock =
  tl_type :: timelock_type
  tl_value :: int

record ArkAddress =
  pkScript :: bytes
  encode :: string

text \<open>
  The functions of \<^verbatim>\<open>@scure/base\<close> and \<^verbatim>\<open>@arkade-os/sdk\<close> that \<^verbatim>\<open>escrow.ts\<close> calls are not
  part of the repository; they are parameters of the model. A result \<open>None\<close> stands for a
  call that throws. \<open>'vs\<close> is the state the \<^verbatim>\<open>VtxoScript\<close> super-constructor computes from
  the list of scripts (the taproot tree and the tweaked key).
\<close>

record 'vs sdk =
  hex_encode :: "bytes \<Rightarrow> string"
  MultisigTapscript_encode :: "bytes list \<Rightarrow> bytes option"
  CSVMultisigTapscript_encode :: "bytes list \<Rightarrow> RelativeTimelock \<Rightarrow> bytes option"
  VtxoScript_new :: "bytes list \<Rightarrow> 'vs option"
  VtxoScript_address :: "'vs \<Rightarrow> string \<Rightarrow> bytes \<Rightarrow> ArkAddress option"

section \<open>escrow.ts: the virtual escrow script\<close>

record Options =
  opt_buyer :: bytes
  opt_seller :: bytes
  opt_arbitrator :: bytes
  opt_server :: bytes
  unilateralDelay :: RelativeTimelock

text \<open>
  The errors \<^verbatim>\<open>validateOptions\<close> throws, and \<open>LibraryError\<close> for an exception raised inside
  one of the library calls of the constructor.
\<close>

datatype escrow_error =
    InvalidKeyLength string nat
  | DuplicateKey
  | LibraryError

text \<open>The \<^verbatim>\<open>for (const {name, key} of keys)\<close> loop: the first key of wrong length throws.\<close>

fun check_key_lengths :: "(string \<times> bytes) list \<Rightarrow> escrow_error + unit" where
  "check_key_lengths [] = Inr ()"
| "check_key_lengths ((name, key) # rest) =
     (if length key \<noteq> 32 then Inl (InvalidKeyLength name (length key))
      else check_key_lengths rest)"

definition validateOptions :: "'vs sdk \<Rightarrow> Options \<Rightarrow> escrow_error + unit" where
  "validateOptions lib options =
     (case check_key_lengths
             [(''buyer'', opt_buyer options), (''seller'', opt_seller options),
              (''arbitrator'', opt_arbitrator options), (''server'', opt_server options)] of
        Inl e \<Rightarrow> Inl e
      | Inr _ \<Rightarrow>
          (if card (set [hex_encode lib (opt_buyer options), hex_encode lib (opt_seller options),
                         hex_encode lib (opt_arbitrator options),
                         hex_encode lib (opt_server options)]) \<noteq> 4
           then Inl DuplicateKey else Inr ()))"

text \<open>
  A \<^verbatim>\<open>VEscrow.Script\<close> object: the options, the part built by the super-constructor, and the
  six hex-encoded scripts.
\<close>

record 'vs Script =
  options :: Options
  vtxoScript :: 'vs
  releaseScript :: string
  refundScript :: string
  directScript :: string
  unilateralReleaseScript :: string
  unilateralRefundScript :: string
  unilateralDirectScript :: string

definition Script_new :: "'vs sdk \<Rightarrow> Options \<Rightarrow> escrow_error + 'vs Script" where
  "Script_new lib opts =
     (case validateOptions lib opts of
        Inl e \<Rightarrow> Inl e
      | Inr _ \<Rightarrow>
          (case
             do {
               release \<leftarrow> MultisigTapscript_encode lib
                            [opt_seller opts, opt_arbitrator opts, opt_server opts];
               refund \<leftarrow> MultisigTapscript_encode lib
                            [opt_buyer opts, opt_arbitrator opts, opt_server opts];
               direct \<leftarrow> MultisigTapscript_encode lib
                            [opt_buyer opts, opt_seller opts, opt_server opts];
               unilateralRelease \<leftarrow> CSVMultisigTapscript_encode lib
                            [opt_seller opts, opt_arbitrator opts] (unilateralDelay opts);
               unilateralRefund \<leftarrow> CSVMultisigTapscript_encode lib
                            [opt_buyer opts, opt_arbitrator opts] (unilateralDelay opts);
               unilateralDirect \<leftarrow> CSVMultisigTapscript_encode lib
                            [opt_buyer opts, opt_seller opts] (unilateralDelay opts);
               vs \<leftarrow> VtxoScript_new lib
                            [release, refund, direct,
                             unilateralRelease, unilateralRefund, unilateralDirect];
               Some \<lparr> options = opts, vtxoScript = vs,
                      releaseScript = hex_encode lib release,
                      refundScript = hex_encode lib refund,
                      directScript = hex_encode lib direct,
                      unilateralReleaseScript = hex_encode lib unilateralRelease,
                      unilateralRefundScript = hex_encode lib unilateralRefund,
                      unilateralDirectScript = hex_encode lib unilateralDirect \<rparr>
             } of
             None \<Rightarrow> Inl LibraryError
           | Some s \<Rightarrow> Inr s))"

text \<open>\<^verbatim>\<open>escrowScript.address(prefix, serverKey)\<close>, the derived contract address.\<close>

definition Script_address :: "'vs sdk \<Rightarrow> 'vs Script \<Rightarrow> string \<Rightarrow> bytes \<Rightarrow> ArkAddress option" where
  "Script_address lib s prefix serverKey = VtxoScript_address lib (vtxoScript s) prefix serverKey"

section \<open>types.ts: users, contracts and pending transactions\<close>

record User =
  user_name :: string
  pubkey :: string
  address :: string
  user_timestamp :: int

record VtxoRef =
  txid :: string
  vout :: nat
  vtxo_value :: int

datatype tx_status = pending_cosign | approved | rejected

record PartialTx =
  vtxo :: VtxoRef
  arkTx :: bytes
  checkpoints :: "bytes list"
  requiredSigners :: "string list"
  initiatorSigned :: bool
  approvals :: "string list"
  rejections :: "string list"

record PendingTransaction =
  action :: string
  initiator :: string
  timestamp :: int
  status :: tx_status
  partialTx :: "PartialTx option"

record EscrowContract =
  arkAddress :: string
  buyer :: User
  seller :: User
  arbitrator :: User
  description :: string
  contract_timestamp :: int
  pendingTransaction :: "PendingTransaction option"

text \<open>
  Of a \<^verbatim>\<open>WalletInfo\<close> the contract manager uses the public key and \<^verbatim>\<open>identity.sign(tx, indexes?)\<close>;
  \<open>'tx\<close> is the type of decoded \<^verbatim>\<open>Transaction\<close> objects and \<open>None\<close> a signing call that throws.
\<close>

record 'tx WalletInfo =
  wallet_pubkey :: string
  identity_sign :: "'tx \<Rightarrow> nat list option \<Rightarrow> 'tx option"

section \<open>The collaborators of the contract manager\<close>

record ArkInfo =
  unilateralExitDelay :: int
  signerPubkey :: string
  network :: string

text \<open>
  \<^verbatim>\<open>RestArkProvider\<close>: \<^verbatim>\<open>submitTx\<close> returns the transaction id or throws (\<open>None\<close>),
  \<^verbatim>\<open>finalizeTx\<close> succeeds or throws (\<open>False\<close>). The model passes the PSBT bytes whose base64
  text the source passes.
\<close>

record Provider =
  submitTx :: "bytes \<Rightarrow> bytes list \<Rightarrow> string option"
  finalizeTx :: "string \<Rightarrow> bytes list \<Rightarrow> bool"

record 'leaf TxInput =
  in_txid :: string
  in_vout :: nat
  in_value :: int
  in_script :: bytes
  tapTree :: bytes
  tapLeafScript :: "'leaf option"

record Output =
  amount :: int
  script :: bytes

text \<open>
  Everything a call of the contract manager reads from outside: the library, the server
  manager (\<^verbatim>\<open>arkInfo\<close>, \<^verbatim>\<open>provider\<close>, the indexer), the wallet manager's current wallet
  with its balance and \<^verbatim>\<open>sendBitcoin\<close>, and the communication provider. Each field is the
  answer the collaborator gives during that call; \<open>None\<close> or \<open>False\<close> is a call that throws.
\<close>

record ('tx, 'vs, 'leaf) env =
  library :: "'vs sdk"
  hex_decode :: "string \<Rightarrow> bytes option"
  fromPSBT :: "bytes \<Rightarrow> 'tx option"
  toPSBT :: "'tx \<Rightarrow> bytes"
  findLeaf :: "'vs \<Rightarrow> string \<Rightarrow> 'leaf option"
  vtxo_pkScript :: "'vs \<Rightarrow> bytes"
  vtxo_encode :: "'vs \<Rightarrow> bytes"
  ArkAddress_decode :: "string \<Rightarrow> ArkAddress option"
  buildOffchainTx :: "'leaf TxInput list \<Rightarrow> Output list \<Rightarrow> bytes \<Rightarrow> ('tx \<times> 'tx list) option"
  arkInfo :: "ArkInfo option"
  provider :: "Provider option"
  getVtxos :: "string \<Rightarrow> VtxoRef list option"
  currentWallet :: "'tx WalletInfo option"
  wallet_getBalance :: "int option"
  wallet_sendBitcoin :: "string \<Rightarrow> int \<Rightarrow> bool"
  comm_updateContract :: "EscrowContract \<Rightarrow> bool"

section \<open>The state of the contract manager\<close>

text \<open>
  What the user is told: the texts behind \<^verbatim>\<open>showError\<close>, \<^verbatim>\<open>showSuccess\<close> and \<^verbatim>\<open>showInfo\<close>,
  one constructor per call site of the contract manager.
\<close>

datatype notice =
    NoPendingToApprove
  | NotRequired
  | AlreadyApproved
  | FailedToApprove
  | NoPendingToReject
  | NotAuthorizedToReject
  | FailedToExecute
  | FundsAlreadyExist
  | NoFundsFound
  | NotAuthorized
  | FailedToCreate
  | Signing
  | WaitingForSignatures
  | AllSignaturesCollected
  | Submitted string
  | Finalized
  | RejectedBy string
  | RejectedCleared
  | PartialCreated
  | NoWalletAvailable
  | EnterValidAddress
  | SendingTransaction
  | InsufficientBalance
  | TransactionSent
  | TransactionFailed

datatype event =
    ShowError notice
  | ShowSuccess notice
  | ShowInfo notice
  | SubmitTx bytes "bytes list"
  | FinalizeTx string "bytes list"
  | SendBitcoin string int
  | UpdateContract EscrowContract
  | NotifyPendingTransaction string PendingTransaction

text \<open>
  Contract objects are mutated in place and shared between the \<^verbatim>\<open>contracts\<close> map, the
  callers and the timer callbacks, so they live in a store: \<open>heap\<close> maps a reference to the
  object, \<open>contracts\<close> is the \<^verbatim>\<open>Map\<close> from address to object, \<open>timers\<close> are the pending
  \<^verbatim>\<open>setTimeout\<close> callbacks (due time in milliseconds and the contract object the closure
  holds), \<open>clock\<close> is the time in milliseconds and \<open>trace\<close> the calls made to the outside.
  The pending transaction is stored by value inside its contract object: what an operation
  does to the object it is called on and to the object registered under the address is
  exact; a pending transaction that two different contract objects share is not tracked.
  One operation runs at a time.
\<close>

record state =
  heap :: "nat \<Rightarrow> EscrowContract"
  contracts :: "string \<Rightarrow> nat option"
  timers :: "(nat \<times> nat) list"
  clock :: nat
  trace :: "event list"

definition emit :: "event \<Rightarrow> state \<Rightarrow> state" where
  "emit e st = st\<lparr>trace := trace st @ [e]\<rparr>"

definition set_pending :: "nat \<Rightarrow> PendingTransaction option \<Rightarrow> state \<Rightarrow> state" where
  "set_pending r p st = st\<lparr>heap := (heap st)(r := (heap st r)\<lparr>pendingTransaction := p\<rparr>)\<rparr>"

text \<open>An assignment to a field of \<^verbatim>\<open>contract.pendingTransaction.partialTx\<close>.\<close>

definition update_partialTx :: "nat \<Rightarrow> (PartialTx \<Rightarrow> PartialTx) \<Rightarrow> state \<Rightarrow> state" where
  "update_partialTx r f st =
     set_pending r
       (map_option (\<lambda>p. p\<lparr>partialTx := map_option f (partialTx p)\<rparr>)
          (pendingTransaction (heap st r))) st"

definition update_pending :: "nat \<Rightarrow> (PendingTransaction \<Rightarrow> PendingTransaction) \<Rightarrow> state \<Rightarrow> state" where
  "update_pending r f st = set_pending r (map_option f (pendingTransaction (heap st r))) st"

text \<open>
  \<^verbatim>\<open>updateContractPendingTransaction\<close> up to its first \<^verbatim>\<open>await\<close>: the object registered under
  the address gets the pending transaction and \<^verbatim>\<open>updateContract\<close> is called with it.
\<close>

definition registerPending :: "string \<Rightarrow> PendingTransaction option \<Rightarrow> state \<Rightarrow> state" where
  "registerPending addr p st =
     (case contracts st addr of
        None \<Rightarrow> st
      | Some r \<Rightarrow>
          let st1 = set_pending r p st
          in emit (UpdateContract (heap st1 r)) st1)"

text \<open>
  The rest of it, once \<^verbatim>\<open>updateContract\<close> has settled: the pending transaction is announced
  when there is one. An exception of the communication provider is caught and logged.
\<close>

definition announcePending ::
  "('tx, 'vs, 'leaf) env \<Rightarrow> string \<Rightarrow> PendingTransaction option \<Rightarrow> state \<Rightarrow> state" where
  "announcePending e addr p st =
     (case contracts st addr of
        None \<Rightarrow> st
      | Some r \<Rightarrow>
          if \<not> comm_updateContract e (heap st r) then st
          else (case p of
                  None \<Rightarrow> st
                | Some p' \<Rightarrow> emit (NotifyPendingTransaction addr p') st))"

text \<open>The whole of \<^verbatim>\<open>updateContractPendingTransaction\<close>, as a caller that awaits it sees it.\<close>

definition updateContractPendingTransaction ::
  "('tx, 'vs, 'leaf) env \<Rightarrow> string \<Rightarrow> PendingTransaction option \<Rightarrow> state \<Rightarrow> state" where
  "updateContractPendingTransaction e addr p st =
     announcePending e addr p (registerPending addr p st)"

section \<open>Roles and the signers an action requires\<close>

definition lower_char :: "char \<Rightarrow> char" where
  "lower_char c =
     (let n = (of_char c :: nat) in if 65 \<le> n \<and> n \<le> 90 then char_of (n + 32) else c)"

text \<open>
  \<^verbatim>\<open>String.prototype.toLowerCase\<close> on the 8-bit characters of HOL strings: the letters A to Z
  are mapped to a to z. The results are only ever compared with the lower-case ASCII names
  of the four actions.
\<close>

definition toLowerCase :: "string \<Rightarrow> string" where
  "toLowerCase s = map lower_char s"

datatype role = Buyer | Seller | Arbitrator

definition getUserRole :: "EscrowContract \<Rightarrow> string \<Rightarrow> role option" where
  "getUserRole contract pk =
     (if pk = pubkey (buyer contract) then Some Buyer
      else if pk = pubkey (seller contract) then Some Seller
      else if pk = pubkey (arbitrator contract) then Some Arbitrator
      else None)"

definition getRequiredSignersForAction ::
  "string \<Rightarrow> EscrowContract \<Rightarrow> 'tx WalletInfo \<Rightarrow> string list" where
  "getRequiredSignersForAction act contract w =
     (let currentUserRole = getUserRole contract (wallet_pubkey w);
          a = toLowerCase act
      in if a = ''fund'' then
           (if currentUserRole = Some Buyer then [pubkey (buyer contract)] else [])
         else if a = ''release'' then
           (if currentUserRole = Some Seller \<or> currentUserRole = Some Arbitrator
            then [pubkey (seller contract), pubkey (arbitrator contract)] else [])
         else if a = ''refund'' then
           (if currentUserRole = Some Buyer \<or> currentUserRole = Some Arbitrator
            then [pubkey (buyer contract), pubkey (arbitrator contract)] else [])
         else if a = ''direct settle'' then
           (if currentUserRole = Some Buyer \<or> currentUserRole = Some Seller
            then [pubkey (buyer contract), pubkey (seller contract)] else [])
         else [])"

text \<open>
  \<^verbatim>\<open>getAvailableActions\<close>, the actions the interface offers to a role; the role is the string
  or \<^verbatim>\<open>null\<close> that \<^verbatim>\<open>getCurrentUserRole\<close> returns.
\<close>

datatype escrow_status = created | funded | executed

record EscrowState =
  escrow_status :: escrow_status
  balance :: "int option"
  vtxoExists :: bool

definition getAvailableActions :: "EscrowState \<Rightarrow> string option \<Rightarrow> string list" where
  "getAvailableActions state userRole =
     (case userRole of
        None \<Rightarrow> []
      | Some role \<Rightarrow>
          if role = [] then []
          else if escrow_status state = created then
            (if role = ''seller'' then [''Fund''] else [])
          else if role = ''buyer'' then [''Refund'', ''Direct Settle'']
          else if role = ''seller'' then [''Release'', ''Direct Settle'']
          else if role = ''arbitrator'' then [''Release'', ''Refund'']
          else [])"

section \<open>The server manager\<close>

text \<open>Each getter dereferences \<^verbatim>\<open>arkInfo!\<close> and throws when the server was never reached.\<close>

definition getUnilateralDelay :: "('tx, 'vs, 'leaf) env \<Rightarrow> RelativeTimelock option" where
  "getUnilateralDelay e =
     map_option
       (\<lambda>i. \<lparr> tl_type = (if unilateralExitDelay i < 512 then blocks else seconds),
               tl_value = unilateralExitDelay i \<rparr>)
       (arkInfo e)"

definition getServerKey :: "('tx, 'vs, 'leaf) env \<Rightarrow> string option" where
  "getServerKey e = map_option (\<lambda>i. drop 2 (signerPubkey i)) (arkInfo e)"

definition getAddrPrefix :: "('tx, 'vs, 'leaf) env \<Rightarrow> string option" where
  "getAddrPrefix e =
     map_option (\<lambda>i. if network i = ''mainnet'' then ''ark'' else ''tark'') (arkInfo e)"

section \<open>Building the spend transaction\<close>

definition restoreScript :: "('tx, 'vs, 'leaf) env \<Rightarrow> EscrowContract \<Rightarrow> 'vs Script option" where
  "restoreScript e contract =
     do {
       delay \<leftarrow> getUnilateralDelay e;
       b \<leftarrow> hex_decode e (pubkey (buyer contract));
       s \<leftarrow> hex_decode e (pubkey (seller contract));
       a \<leftarrow> hex_decode e (pubkey (arbitrator contract));
       k \<leftarrow> getServerKey e;
       srv \<leftarrow> hex_decode e k;
       (case Script_new (library e)
               \<lparr> opt_buyer = b, opt_seller = s, opt_arbitrator = a, opt_server = srv,
                 unilateralDelay = delay \<rparr> of
          Inl err \<Rightarrow> None
        | Inr escrowScript \<Rightarrow> Some escrowScript)
     }"

text \<open>
  \<^verbatim>\<open>escrowScript.address(getAddrPrefix(), hex.decode(getServerKey()))\<close>, as computed at the head
  of \<^verbatim>\<open>executeContractAction\<close>.
\<close>

definition contractAddress :: "('tx, 'vs, 'leaf) env \<Rightarrow> EscrowContract \<Rightarrow> ArkAddress option" where
  "contractAddress e contract =
     do {
       escrowScript \<leftarrow> restoreScript e contract;
       prefix \<leftarrow> getAddrPrefix e;
       k \<leftarrow> getServerKey e;
       srv \<leftarrow> hex_decode e k;
       Script_address (library e) escrowScript prefix srv
     }"

text \<open>
  \<^verbatim>\<open>addressToScript\<close>: the script of the decoded Ark address; when decoding throws, the hex
  decoding of an even-length string; otherwise the function throws.
\<close>

definition addressToScript :: "('tx, 'vs, 'leaf) env \<Rightarrow> string \<Rightarrow> bytes option" where
  "addressToScript e a =
     (case ArkAddress_decode e a of
        Some arkAddr \<Rightarrow> Some (pkScript arkAddr)
      | None \<Rightarrow> (if length a mod 2 = 0 then hex_decode e a else None))"

text \<open>
  \<^verbatim>\<open>createOutputsForAction\<close>. The amount is a JavaScript number holding an integer;
  \<^verbatim>\<open>Math.floor(amount / 2)\<close> is the floor division of integers.
\<close>

definition createOutputsForAction ::
  "('tx, 'vs, 'leaf) env \<Rightarrow> string \<Rightarrow> EscrowContract \<Rightarrow> int \<Rightarrow> Output list option" where
  "createOutputsForAction e act contract amt =
     (let a = toLowerCase act in
      if a = ''release'' then
        do {
          sc \<leftarrow> addressToScript e (address (seller contract));
          Some [\<lparr> amount = amt, script = sc \<rparr>]
        }
      else if a = ''refund'' then
        do {
          sc \<leftarrow> addressToScript e (address (buyer contract));
          Some [\<lparr> amount = amt, script = sc \<rparr>]
        }
      else if a = ''direct settle'' then
        (let halfAmount = amt div 2 in
         do {
           sb \<leftarrow> addressToScript e (address (buyer contract));
           ss \<leftarrow> addressToScript e (address (seller contract));
           Some [\<lparr> amount = halfAmount, script = sb \<rparr>,
                 \<lparr> amount = amt - halfAmount, script = ss \<rparr>]
         })
      else None)"

text \<open>
  \<^verbatim>\<open>getSpendingPathForAction\<close>: the outer \<open>None\<close> is an exception of \<^verbatim>\<open>findLeaf\<close>, the inner
  one the value \<^verbatim>\<open>null\<close>.
\<close>

definition getSpendingPathForAction ::
  "('tx, 'vs, 'leaf) env \<Rightarrow> 'vs Script \<Rightarrow> string \<Rightarrow> 'leaf option option" where
  "getSpendingPathForAction e escrowScript act =
     (let a = toLowerCase act in
      if a = ''fund'' then Some None
      else if a = ''release'' then
        map_option Some (findLeaf e (vtxoScript escrowScript) (releaseScript escrowScript))
      else if a = ''refund'' then
        map_option Some (findLeaf e (vtxoScript escrowScript) (refundScript escrowScript))
      else if a = ''direct settle'' then
        map_option Some (findLeaf e (vtxoScript escrowScript) (directScript escrowScript))
      else Some None)"

definition createEscrowTransaction ::
  "('tx, 'vs, 'leaf) env \<Rightarrow> EscrowContract \<Rightarrow> string \<Rightarrow> VtxoRef \<Rightarrow> ('tx \<times> 'tx list) option" where
  "createEscrowTransaction e contract act v =
     do {
       escrowScript \<leftarrow> restoreScript e contract;
       spendingPath \<leftarrow> getSpendingPathForAction e escrowScript act;
       (if spendingPath = None \<and> toLowerCase act \<noteq> ''fund'' then None
        else do {
          serverKey \<leftarrow> getServerKey e;
          delay \<leftarrow> getUnilateralDelay e;
          srv \<leftarrow> hex_decode e serverKey;
          serverUnrollScript \<leftarrow> CSVMultisigTapscript_encode (library e) [srv] delay;
          outputs \<leftarrow> createOutputsForAction e act contract (vtxo_value v);
          buildOffchainTx e
            [\<lparr> in_txid = txid v, in_vout = vout v, in_value = vtxo_value v,
               in_script = vtxo_pkScript e (vtxoScript escrowScript),
               tapTree = vtxo_encode e (vtxoScript escrowScript),
               tapLeafScript = spendingPath \<rparr>]
            outputs serverUnrollScript
        })
     }"

section \<open>wallet-manager.ts: the funding transfer\<close>

text \<open>\<^verbatim>\<open>address.trim()\<close> is empty when the string holds white space only.\<close>

definition is_blank :: "string \<Rightarrow> bool" where
  "is_blank a = list_all (\<lambda>c. (of_char c :: nat) \<in> {9, 10, 11, 12, 13, 32, 160}) a"

text \<open>
  \<^verbatim>\<open>WalletManager.sendTransaction(address)\<close> without an amount: the whole balance of the
  current wallet is sent to the address.
\<close>

definition sendTransaction :: "('tx, 'vs, 'leaf) env \<Rightarrow> string \<Rightarrow> state \<Rightarrow> state" where
  "sendTransaction e a st =
     (case currentWallet e of
        None \<Rightarrow> emit (ShowError NoWalletAvailable) st
      | Some w \<Rightarrow>
          if is_blank a then emit (ShowError EnterValidAddress) st
          else
            (let st1 = emit (ShowInfo SendingTransaction) st in
             case wallet_getBalance e of
               None \<Rightarrow> emit (ShowError TransactionFailed) st1
             | Some sendAmount \<Rightarrow>
                 if sendAmount \<le> 0 then emit (ShowError InsufficientBalance) st1
                 else
                   (let st2 = emit (SendBitcoin a sendAmount) st1 in
                    if wallet_sendBitcoin e a sendAmount
                    then emit (ShowSuccess TransactionSent) st2
                    else emit (ShowError TransactionFailed) st2)))"

section \<open>Creating a pending transaction\<close>

text \<open>
  What \<^verbatim>\<open>executeContractAction\<close> stores once the initiator has signed the spend transaction
  and every checkpoint.
\<close>

definition newPendingTransaction ::
  "string \<Rightarrow> string \<Rightarrow> int \<Rightarrow> VtxoRef \<Rightarrow> bytes \<Rightarrow> bytes list \<Rightarrow> string list \<Rightarrow> PendingTransaction" where
  "newPendingTransaction act pk now v signedArkTx signedCheckpoints required =
     \<lparr> action = act, initiator = pk, timestamp = now, status = pending_cosign,
       partialTx = Some
         \<lparr> vtxo = \<lparr> txid = txid v, vout = vout v, vtxo_value = vtxo_value v \<rparr>,
           arkTx = signedArkTx,
           checkpoints = signedCheckpoints,
           requiredSigners = filter (\<lambda>k. k \<noteq> pk) required,
           initiatorSigned = True,
           approvals = [pk],
           rejections = [] \<rparr> \<rparr>"

text \<open>
  The part of \<^verbatim>\<open>executeContractAction\<close> after the authorisation check: build, sign, and
  assemble the pending transaction; \<open>None\<close> when anything throws.
\<close>

definition buildPendingTransaction ::
  "('tx, 'vs, 'leaf) env \<Rightarrow> EscrowContract \<Rightarrow> string \<Rightarrow> 'tx WalletInfo \<Rightarrow> VtxoRef \<Rightarrow>
   string list \<Rightarrow> int \<Rightarrow> PendingTransaction option" where
  "buildPendingTransaction e contract act w v required now =
     do {
       (tx, cps) \<leftarrow> createEscrowTransaction e contract act v;
       signedArkTx \<leftarrow> identity_sign w tx None;
       signedCheckpoints \<leftarrow>
         those (map (\<lambda>cp. map_option (toPSBT e) (identity_sign w cp (Some [0]))) cps);
       Some (newPendingTransaction act (wallet_pubkey w) now v
               (toPSBT e signedArkTx) signedCheckpoints required)
     }"

text \<open>
  \<^verbatim>\<open>executeContractAction(contract, action, currentWallet)\<close>; \<open>r\<close> is the contract object.
  Every exception inside is caught and reported as \<open>FailedToCreate\<close>. The update of the
  registered contract is not awaited, so the success is shown before the pending
  transaction is announced.
\<close>

definition executeContractAction ::
  "('tx, 'vs, 'leaf) env \<Rightarrow> nat \<Rightarrow> string \<Rightarrow> 'tx WalletInfo \<Rightarrow> state \<Rightarrow> state" where
  "executeContractAction e r act w st =
     (let contract = heap st r in
      case contractAddress e contract of
        None \<Rightarrow> emit (ShowError FailedToCreate) st
      | Some addr \<Rightarrow>
          (case getVtxos e (hex_encode (library e) (pkScript addr)) of
             None \<Rightarrow> emit (ShowError FailedToCreate) st
           | Some vtxos \<Rightarrow>
               if toLowerCase act = ''fund'' then
                 (if length vtxos > 0 then emit (ShowError FundsAlreadyExist) st
                  else sendTransaction e (encode addr) st)
               else if length vtxos = 0 then emit (ShowError NoFundsFound) st
               else
                 (let v = hd vtxos;
                      required = getRequiredSignersForAction act contract w
                  in if length required = 0 then emit (ShowError NotAuthorized) st
                     else
                       (case buildPendingTransaction e contract act w v required
                               (int (clock st)) of
                          None \<Rightarrow> emit (ShowError FailedToCreate) st
                        | Some p \<Rightarrow>
                            announcePending e (encode addr) (Some p)
                              (emit (ShowSuccess PartialCreated)
                                 (registerPending (encode addr) (Some p) st))))))"

section \<open>Approving, executing and rejecting\<close>

text \<open>
  \<^verbatim>\<open>getWalletForSigner\<close>: only the wallet manager's current wallet can sign, and only for its
  own key.
\<close>

definition getWalletForSigner :: "('tx, 'vs, 'leaf) env \<Rightarrow> string \<Rightarrow> 'tx WalletInfo option" where
  "getWalletForSigner e pk =
     (case currentWallet e of
        None \<Rightarrow> None
      | Some w \<Rightarrow> if wallet_pubkey w = pk then Some w else None)"

text \<open>\<^verbatim>\<open>Transaction.fromPSBT\<close>, \<^verbatim>\<open>identity.sign\<close> and \<^verbatim>\<open>toPSBT\<close> in a row, as both signing sites do.\<close>

definition signPSBT ::
  "('tx, 'vs, 'leaf) env \<Rightarrow> 'tx WalletInfo \<Rightarrow> nat list option \<Rightarrow> bytes \<Rightarrow> bytes option" where
  "signPSBT e w idx psbt =
     do {
       tx \<leftarrow> fromPSBT e psbt;
       signed \<leftarrow> identity_sign w tx idx;
       Some (toPSBT e signed)
     }"

text \<open>
  \<^verbatim>\<open>signTransactionsForUser\<close>. The result is \<open>True\<close> when the function returns and \<open>False\<close>
  when it throws; the state is returned in both cases, because the signed spend transaction
  is assigned to \<^verbatim>\<open>partialTx.arkTx\<close> before the checkpoints are signed.
\<close>

definition signTransactionsForUser ::
  "('tx, 'vs, 'leaf) env \<Rightarrow> nat \<Rightarrow> 'tx WalletInfo \<Rightarrow> state \<Rightarrow> bool \<times> state" where
  "signTransactionsForUser e r w st =
     (case pendingTransaction (heap st r) of
        None \<Rightarrow> (False, st)
      | Some p \<Rightarrow>
          (case partialTx p of
             None \<Rightarrow> (False, st)
           | Some ptx \<Rightarrow>
               (case getWalletForSigner e (wallet_pubkey w) of
                  None \<Rightarrow> (False, st)
                | Some authorizedWallet \<Rightarrow>
                    (case signPSBT e authorizedWallet None (arkTx ptx) of
                       None \<Rightarrow> (False, st)
                     | Some signedPSBT \<Rightarrow>
                         (let st1 = update_partialTx r (\<lambda>t. t\<lparr>arkTx := signedPSBT\<rparr>) st in
                          case those (map (signPSBT e authorizedWallet (Some [0]))
                                        (checkpoints ptx)) of
                            None \<Rightarrow> (False, st1)
                          | Some signedCheckpoints \<Rightarrow>
                              (True, update_partialTx r
                                       (\<lambda>t. t\<lparr>checkpoints := signedCheckpoints\<rparr>) st1))))))"

text \<open>
  \<^verbatim>\<open>executeMultiSigTransaction\<close>: submit, then finalize with the same checkpoints, then clear
  the pending transaction. Each failure is caught inside and reported; only the missing
  pending transaction is thrown to the caller (result \<open>False\<close>). The two dynamic imports name
  modules that the file imports statically as well and are taken to succeed.
\<close>

definition executeMultiSigTransaction ::
  "('tx, 'vs, 'leaf) env \<Rightarrow> nat \<Rightarrow> state \<Rightarrow> bool \<times> state" where
  "executeMultiSigTransaction e r st =
     (case pendingTransaction (heap st r) of
        None \<Rightarrow> (False, st)
      | Some p \<Rightarrow>
          (case partialTx p of
             None \<Rightarrow> (False, st)
           | Some ptx \<Rightarrow>
               (True,
                let st1 = emit (ShowInfo AllSignaturesCollected) st in
                case provider e of
                  None \<Rightarrow> emit (ShowError FailedToExecute) st1
                | Some arkProvider \<Rightarrow>
                    (case fromPSBT e (arkTx ptx) of
                       None \<Rightarrow> emit (ShowError FailedToExecute) st1
                     | Some tx \<Rightarrow>
                         (let st2 = emit (SubmitTx (toPSBT e tx) (checkpoints ptx)) st1 in
                          case submitTx arkProvider (toPSBT e tx) (checkpoints ptx) of
                            None \<Rightarrow> emit (ShowError FailedToExecute) st2
                          | Some arkTxid \<Rightarrow>
                              (let st3 = emit (ShowSuccess (Submitted arkTxid)) st2;
                                   st4 = emit (FinalizeTx arkTxid (checkpoints ptx)) st3
                               in if \<not> finalizeTx arkProvider arkTxid (checkpoints ptx)
                                  then emit (ShowError FailedToExecute) st4
                                  else
                                    (let st5 = emit (ShowSuccess Finalized) st4;
                                         st6 = set_pending r None st5
                                     in updateContractPendingTransaction e
                                          (arkAddress (heap st6 r)) None st6)))))))"

text \<open>
  The completion test of \<^verbatim>\<open>approvePendingTransaction\<close>: every required signer and the
  initiator is among the approvals.
\<close>

definition allApproved :: "PendingTransaction \<Rightarrow> PartialTx \<Rightarrow> bool" where
  "allApproved p ptx =
     list_all (\<lambda>pk. pk \<in> set (approvals ptx)) (requiredSigners ptx @ [initiator p])"

definition approvePendingTransaction ::
  "('tx, 'vs, 'leaf) env \<Rightarrow> nat \<Rightarrow> 'tx WalletInfo \<Rightarrow> state \<Rightarrow> state" where
  "approvePendingTransaction e r w st =
     (case pendingTransaction (heap st r) of
        None \<Rightarrow> emit (ShowError NoPendingToApprove) st
      | Some p \<Rightarrow>
          (case partialTx p of
             None \<Rightarrow> emit (ShowError NoPendingToApprove) st
           | Some ptx \<Rightarrow>
               if wallet_pubkey w \<notin> set (requiredSigners ptx)
               then emit (ShowError NotRequired) st
               else if wallet_pubkey w \<in> set (approvals ptx)
               then emit (ShowError AlreadyApproved) st
               else
                 (case signTransactionsForUser e r w (emit (ShowInfo Signing) st) of
                    (False, st1) \<Rightarrow> emit (ShowError FailedToApprove) st1
                  | (True, st1) \<Rightarrow>
                      (let st2 = update_partialTx r
                                   (\<lambda>t. t\<lparr>approvals := approvals t @ [wallet_pubkey w]\<rparr>) st1
                       in case pendingTransaction (heap st2 r) of
                            None \<Rightarrow> emit (ShowError FailedToApprove) st2
                          | Some p2 \<Rightarrow>
                              (case partialTx p2 of
                                 None \<Rightarrow> emit (ShowError FailedToApprove) st2
                               | Some ptx2 \<Rightarrow>
                                   if allApproved p2 ptx2 then
                                     (case executeMultiSigTransaction e r st2 of
                                        (False, st3) \<Rightarrow> emit (ShowError FailedToApprove) st3
                                      | (True, st3) \<Rightarrow> st3)
                                   else
                                     updateContractPendingTransaction e
                                       (arkAddress (heap st2 r)) (Some p2)
                                       (emit (ShowSuccess WaitingForSignatures) st2))))))"

text \<open>The grace delay of \<^verbatim>\<open>rejectPendingTransaction\<close>, in milliseconds.\<close>

definition graceDelay :: nat where
  "graceDelay = 3000"

definition rejectPendingTransaction ::
  "('tx, 'vs, 'leaf) env \<Rightarrow> nat \<Rightarrow> 'tx WalletInfo \<Rightarrow> state \<Rightarrow> state" where
  "rejectPendingTransaction e r w st =
     (case pendingTransaction (heap st r) of
        None \<Rightarrow> emit (ShowError NoPendingToReject) st
      | Some p \<Rightarrow>
          (case partialTx p of
             None \<Rightarrow> emit (ShowError NoPendingToReject) st
           | Some ptx \<Rightarrow>
               if wallet_pubkey w \<notin> set (requiredSigners ptx)
               then emit (ShowError NotAuthorizedToReject) st
               else
                 (let st1 = (if wallet_pubkey w \<notin> set (rejections ptx)
                             then update_partialTx r
                                    (\<lambda>t. t\<lparr>rejections := rejections t @ [wallet_pubkey w]\<rparr>) st
                             else st);
                      st2 = update_pending r (\<lambda>q. q\<lparr>status := rejected\<rparr>) st1;
                      st3 = emit (ShowSuccess (RejectedBy (wallet_pubkey w))) st2;
                      st4 = st3\<lparr>timers := timers st3 @ [(clock st3 + graceDelay, r)]\<rparr>
                  in updateContractPendingTransaction e (arkAddress (heap st4 r))
                       (pendingTransaction (heap st4 r)) st4)))"

text \<open>The callback that \<^verbatim>\<open>rejectPendingTransaction\<close> hands to \<^verbatim>\<open>setTimeout\<close>.\<close>

definition clearRejected :: "('tx, 'vs, 'leaf) env \<Rightarrow> nat \<Rightarrow> state \<Rightarrow> state" where
  "clearRejected e r st =
     (let st1 = set_pending r None st;
          st2 = updateContractPendingTransaction e (arkAddress (heap st1 r)) None st1
      in emit (ShowInfo RejectedCleared) st2)"

text \<open>
  One turn of the event loop for timers: the first callback whose time has come is removed
  and run; nothing happens when none is due.
\<close>

fun takeDue :: "nat \<Rightarrow> (nat \<times> nat) list \<Rightarrow> (nat \<times> (nat \<times> nat) list) option" where
  "takeDue now [] = None"
| "takeDue now ((due, r) # ts) =
     (if due \<le> now then Some (r, ts)
      else map_option (\<lambda>(r', ts'). (r', (due, r) # ts')) (takeDue now ts))"

definition runTimer :: "('tx, 'vs, 'leaf) env \<Rightarrow> state \<Rightarrow> state" where
  "runTimer e st =
     (case takeDue (clock st) (timers st) of
        None \<Rightarrow> st
      | Some (r, ts) \<Rightarrow> clearRejected e r (st\<lparr>timers := ts\<rparr>))"

definition advance :: "nat \<Rightarrow> state \<Rightarrow> state" where
  "advance d st = st\<lparr>clock := clock st + d\<rparr>"

text \<open>The operations that act on the contract manager, and a run of them.\<close>

datatype 'tx op =
    Create nat string "'tx WalletInfo"
  | Approve nat "'tx WalletInfo"
  | Reject nat "'tx WalletInfo"
  | RunTimer
  | Advance nat

fun step :: "('tx, 'vs, 'leaf) env \<Rightarrow> 'tx op \<Rightarrow> state \<Rightarrow> state" where
  "step e (Create r act w) st = executeContractAction e r act w st"
| "step e (Approve r w) st = approvePendingTransaction e r w st"
| "step e (Reject r w) st = rejectPendingTransaction e r w st"
| "step e RunTimer st = runTimer e st"
| "step e (Advance d) st = advance d st"

fun run :: "(('tx, 'vs, 'leaf) env \<times> 'tx op) list \<Rightarrow> state \<Rightarrow> state" where
  "run [] st = st"
| "run ((e, c) # rest) st = run rest (step e c st)"

section \<open>Observing a state\<close>

definition pendingOf :: "state \<Rightarrow> nat \<Rightarrow> PendingTransaction option" where
  "pendingOf st r = pendingTransaction (heap st r)"

definition partialOf :: "state \<Rightarrow> nat \<Rightarrow> PartialTx option" where
  "partialOf st r = Option.bind (pendingOf st r) partialTx"

definition statusOf :: "state \<Rightarrow> nat \<Rightarrow> tx_status option" where
  "statusOf st r = map_option status (pendingOf st r)"

text \<open>The calls made to the chain, in order: the submits and the finalizes of a trace.\<close>

fun isChainCall :: "event \<Rightarrow> bool" where
  "isChainCall (SubmitTx tx cps) = True"
| "isChainCall (FinalizeTx i cps) = True"
| "isChainCall ev = False"

definition chainCalls :: "event list \<Rightarrow> event list" where
  "chainCalls evs = filter isChainCall evs"

text \<open>The errors shown to the user, in order.\<close>

fun errorsOf :: "event list \<Rightarrow> notice list" where
  "errorsOf [] = []"
| "errorsOf (ShowError n # evs) = n # errorsOf evs"
| "errorsOf (ev # evs) = errorsOf evs"

text \<open>
  The completion condition as a statement about sets: the approvals include every required
  signer and the initiator.
\<close>

definition approvalsComplete :: "state \<Rightarrow> nat \<Rightarrow> bool" where
  "approvalsComplete st r =
     (case pendingOf st r of
        None \<Rightarrow> False
      | Some p \<Rightarrow>
          (case partialTx p of
             None \<Rightarrow> False
           | Some ptx \<Rightarrow> set (requiredSigners ptx) \<union> {initiator p} \<subseteq> set (approvals ptx)))"

text \<open>
  The invariant of the data model: whoever has approved is a required signer or the
  initiator. It is stated for every contract object of the store.
\<close>

definition approvalsWithinSigners :: "PendingTransaction \<Rightarrow> bool" where
  "approvalsWithinSigners p =
     (case partialTx p of
        None \<Rightarrow> True
      | Some ptx \<Rightarrow> set (approvals ptx) \<subseteq> set (requiredSigners ptx) \<union> {initiator p})"

definition invariant :: "state \<Rightarrow> bool" where
  "invariant st =
     (\<forall>r. case pendingOf st r of None \<Rightarrow> True | Some p \<Rightarrow> approvalsWithinSigners p)"

text \<open>
  The operations that act on the pending transaction of contract object \<open>r\<close> without
  creating a new one: its approvals and rejections, the timer callbacks and the clock.
\<close>

fun onContract :: "nat \<Rightarrow> 'tx op \<Rightarrow> bool" where
  "onContract r (Create r' act w) = False"
| "onContract r (Approve r' w) = (r' = r)"
| "onContract r (Reject r' w) = (r' = r)"
| "onContract r RunTimer = True"
| "onContract r (Advance d) = True"

section \<open>A concrete instance of the collaborators\<close>

text \<open>
  The examples below run the model on concrete collaborators: lower-case hexadecimal text
  for \<^verbatim>\<open>hex\<close>, stand-ins for the two script encoders that push every 32-byte key followed
  by a signature check (the timelocked one behind a sequence check), transactions that are
  their own PSBT bytes, and signatures that append the signer's mark.
\<close>

definition hex_digit :: "nat \<Rightarrow> char" where
  "hex_digit n = ''0123456789abcdef'' ! n"

definition hex_of_byte :: "8 word \<Rightarrow> string" where
  "hex_of_byte b = [hex_digit (unat b div 16), hex_digit (unat b mod 16)]"

definition hex_of_bytes :: "bytes \<Rightarrow> string" where
  "hex_of_bytes bs = concat (map hex_of_byte bs)"

definition hex_value :: "char \<Rightarrow> nat option" where
  "hex_value c = map_of (zip ''0123456789abcdef'' [0..<16]) c"

fun bytes_of_hex :: "string \<Rightarrow> bytes option" where
  "bytes_of_hex [] = Some []"
| "bytes_of_hex [c] = None"
| "bytes_of_hex (c # d # rest) =
     do {
       h \<leftarrow> hex_value c;
       l \<leftarrow> hex_value d;
       bs \<leftarrow> bytes_of_hex rest;
       Some (word_of_nat (16 * h + l) # bs)
     }"

definition demo_multisig :: "bytes list \<Rightarrow> bytes option" where
  "demo_multisig ks =
     (if ks = [] \<or> \<not> list_all (\<lambda>k. length k = 32) ks then None
      else Some (concat (map (\<lambda>k. 0x20 # k @ [0xAD]) ks)))"

definition demo_csv :: "bytes list \<Rightarrow> RelativeTimelock \<Rightarrow> bytes option" where
  "demo_csv ks t =
     map_option (\<lambda>s. 0xB2 # 0x75 # word_of_int (tl_value t) # s) (demo_multisig ks)"

definition demo_lib :: "(bytes list) sdk" where
  "demo_lib =
     \<lparr> hex_encode = hex_of_bytes,
       MultisigTapscript_encode = demo_multisig,
       CSVMultisigTapscript_encode = demo_csv,
       VtxoScript_new = Some,
       VtxoScript_address =
         (\<lambda>vs prefix k. Some \<lparr> pkScript = 0x51 # 0x20 # take 32 (concat vs),
                               encode = prefix @ hex_of_bytes (take 4 k @ take 4 (drop 1 (concat vs))) \<rparr>) \<rparr>"

definition demo_key :: "8 word \<Rightarrow> bytes" where
  "demo_key b = replicate 32 b"

text \<open>The hex text of \<open>demo_key 1\<close> to \<open>demo_key 4\<close>: the keys of Carol, Bob, Alice and the server.\<close>

definition carol_pk :: string where
  "carol_pk = ''0101010101010101010101010101010101010101010101010101010101010101''"

definition bob_pk :: string where
  "bob_pk = ''0202020202020202020202020202020202020202020202020202020202020202''"

definition alice_pk :: string where
  "alice_pk = ''0303030303030303030303030303030303030303030303030303030303030303''"

definition server_pk :: string where
  "server_pk = ''0404040404040404040404040404040404040404040404040404040404040404''"

definition demo_user :: "string \<Rightarrow> string \<Rightarrow> User" where
  "demo_user n pk = \<lparr> user_name = n, pubkey = pk, address = ''tark'' @ pk, user_timestamp = 0 \<rparr>"

definition demo_wallet :: "string \<Rightarrow> 8 word \<Rightarrow> bytes WalletInfo" where
  "demo_wallet pk mark =
     \<lparr> wallet_pubkey = pk, identity_sign = (\<lambda>tx idx. Some (tx @ [mark])) \<rparr>"

definition carol :: "bytes WalletInfo" where
  "carol = demo_wallet carol_pk 1"

definition bob :: "bytes WalletInfo" where
  "bob = demo_wallet bob_pk 2"

definition alice :: "bytes WalletInfo" where
  "alice = demo_wallet alice_pk 3"

text \<open>Alice's key when it signs the spend transaction but fails on a checkpoint.\<close>

definition alice_failing_on_checkpoints :: "bytes WalletInfo" where
  "alice_failing_on_checkpoints =
     \<lparr> wallet_pubkey = alice_pk,
       identity_sign = (\<lambda>tx idx. if idx = None then Some (tx @ [3]) else None) \<rparr>"

definition demo_provider :: Provider where
  "demo_provider = \<lparr> submitTx = (\<lambda>tx cps. Some ''ark-txid''), finalizeTx = (\<lambda>i cps. True) \<rparr>"

text \<open>
  The collaborators as seen while wallet \<open>w\<close> is the current wallet and the indexer reports
  the outputs \<open>vtxos\<close> at every script.
\<close>

definition demo_env :: "bytes WalletInfo \<Rightarrow> VtxoRef list \<Rightarrow> (bytes, bytes list, string) env" where
  "demo_env w vtxos =
     \<lparr> library = demo_lib,
       hex_decode = bytes_of_hex,
       fromPSBT = Some,
       toPSBT = (\<lambda>tx. tx),
       findLeaf = (\<lambda>vs s. if s \<in> set (map hex_of_bytes vs) then Some s else None),
       vtxo_pkScript = (\<lambda>vs. 0x51 # 0x20 # take 32 (concat vs)),
       vtxo_encode = (\<lambda>vs. map (\<lambda>s. word_of_nat (length s)) vs),
       ArkAddress_decode =
         (\<lambda>a. if take 4 a = ''tark''
               then map_option (\<lambda>b. \<lparr> pkScript = b, encode = a \<rparr>) (bytes_of_hex (drop 4 a))
               else None),
       buildOffchainTx = (\<lambda>ins outs unroll. Some ([0x70], [[0x71]])),
       arkInfo = Some \<lparr> unilateralExitDelay = 144,
                        signerPubkey = ''02'' @ server_pk,
                        network = ''mutinynet'' \<rparr>,
       provider = Some demo_provider,
       getVtxos = (\<lambda>s. Some vtxos),
       currentWallet = Some w,
       wallet_getBalance = Some 1000,
       wallet_sendBitcoin = (\<lambda>a n. True),
       comm_updateContract = (\<lambda>c. True) \<rparr>"

text \<open>The same collaborators while the application is disconnected from the Ark server.\<close>

definition offline_env :: "bytes WalletInfo \<Rightarrow> VtxoRef list \<Rightarrow> (bytes, bytes list, string) env" where
  "offline_env w vtxos = (demo_env w vtxos)\<lparr>provider := None\<rparr>"

definition demo_options :: Options where
  "demo_options =
     \<lparr> opt_buyer = demo_key 1, opt_seller = demo_key 2, opt_arbitrator = demo_key 3,
       opt_server = demo_key 4,
       unilateralDelay = \<lparr> tl_type = blocks, tl_value = 144 \<rparr> \<rparr>"

text \<open>
  A contract between Carol (buyer), Bob (seller) and Alice (arbitrator), stored under the
  address that \<open>contractAddress\<close> derives for it.
\<close>

definition demo_contract :: EscrowContract where
  "demo_contract =
     \<lparr> arkAddress = ''tark0404040402020202'',
       buyer = demo_user ''Carol'' carol_pk, seller = demo_user ''Bob'' bob_pk,
       arbitrator = demo_user ''Alice'' alice_pk,
       description = ''demo'', contract_timestamp = 0, pendingTransaction = None \<rparr>"

definition demo_state :: state where
  "demo_state =
     \<lparr> heap = (\<lambda>r. demo_contract),
       contracts = [''tark0404040402020202'' \<mapsto> 0],
       timers = [], clock = 0, trace = [] \<rparr>"

definition demo_vtxo :: VtxoRef where
  "demo_vtxo = \<lparr> txid = ''f00d'', vout = 0, vtxo_value = 101 \<rparr>"

text \<open>
  Bob, the seller, has initiated a release on the funded contract and signed it; Alice, the
  arbitrator, is the one required co-signer. \<open>release_tx\<close> is the pending transaction that
  \<open>executeContractAction\<close> stores for it.
\<close>

definition release_tx :: PendingTransaction where
  "release_tx =
     newPendingTransaction ''Release'' bob_pk 0 demo_vtxo [0x70, 2] [[0x71, 2]] [bob_pk, alice_pk]"

definition release_pending :: state where
  "release_pending = set_pending 0 (Some release_tx) demo_state"

text \<open>Alice has approved while the server was unreachable, so nothing was submitted.\<close>

definition approved_unexecuted :: state where
  "approved_unexecuted =
     approvePendingTransaction (offline_env alice [demo_vtxo]) 0 alice release_pending"

text \<open>Alice has rejected the release instead.\<close>

definition rejected_release :: state where
  "rejected_release =
     rejectPendingTransaction (demo_env alice [demo_vtxo]) 0 alice release_pending"

section \<open>Properties of the script constructor\<close>

lemma check_key_lengths_ok:
  "check_key_lengths kvs = Inr () \<longleftrightarrow> (\<forall>(n, k) \<in> set kvs. length k = 32)"
  by (induction kvs rule: check_key_lengths.induct) auto

lemma check_key_lengths_fail:
  "\<exists>(n, k) \<in> set kvs. length k \<noteq> 32 \<Longrightarrow>
   \<exists>n l. check_key_lengths kvs = Inl (InvalidKeyLength n l) \<and> l \<noteq> 32"
  by (induction kvs rule: check_key_lengths.induct) auto

lemma card_set_map_less:
  assumes "\<not> distinct xs"
  shows "card (set (map f xs)) < length xs"
proof -
  have "card (set (map f xs)) \<le> card (set xs)"
    by (simp add: card_image_le)
  moreover have "card (set xs) < length xs"
    using assms card_distinct [of xs] card_length [of xs] by (cases "card (set xs) = length xs") auto
  ultimately show ?thesis by simp
qed

lemma validateOptions_duplicate:
  assumes len: "length (opt_buyer opts) = 32" "length (opt_seller opts) = 32"
               "length (opt_arbitrator opts) = 32" "length (opt_server opts) = 32"
    and dup: "\<not> distinct [opt_buyer opts, opt_seller opts, opt_arbitrator opts, opt_server opts]"
  shows "validateOptions lib opts = Inl DuplicateKey"
proof -
  have "card (set (map (hex_encode lib)
          [opt_buyer opts, opt_seller opts, opt_arbitrator opts, opt_server opts])) < 4"
    using card_set_map_less [OF dup, of "hex_encode lib"] by simp
  then have "card (set [hex_encode lib (opt_buyer opts), hex_encode lib (opt_seller opts),
                        hex_encode lib (opt_arbitrator opts),
                        hex_encode lib (opt_server opts)]) \<noteq> 4"
    by simp
  then show ?thesis
    using len unfolding validateOptions_def by simp
qed

lemma validateOptions_bad_length:
  assumes "length (opt_buyer opts) \<noteq> 32 \<or> length (opt_seller opts) \<noteq> 32 \<or>
           length (opt_arbitrator opts) \<noteq> 32 \<or> length (opt_server opts) \<noteq> 32"
  shows "\<exists>n l. validateOptions lib opts = Inl (InvalidKeyLength n l) \<and> l \<noteq> 32"
proof -
  have "\<exists>(n, k) \<in> set [(''buyer'', opt_buyer opts), (''seller'', opt_seller opts),
              (''arbitrator'', opt_arbitrator opts), (''server'', opt_server opts)].
          length k \<noteq> 32"
    using assms by auto
  from check_key_lengths_fail [OF this] show ?thesis
    unfolding validateOptions_def by auto
qed

text \<open>
  C7. Constructing the escrow script fails with \<open>InvalidKeyLength\<close> when any of the four
  keys is not 32 bytes long, and with \<open>DuplicateKey\<close> when all four are 32 bytes long and
  two of them coincide. The result is then the error alone: no script object exists.
\<close>

theorem Script_new_rejects_invalid_options:
  "(length (opt_buyer opts) \<noteq> 32 \<or> length (opt_seller opts) \<noteq> 32 \<or>
    length (opt_arbitrator opts) \<noteq> 32 \<or> length (opt_server opts) \<noteq> 32
      \<longrightarrow> (\<exists>n l. Script_new lib opts = Inl (InvalidKeyLength n l) \<and> l \<noteq> 32)) \<and>
   (length (opt_buyer opts) = 32 \<and> length (opt_seller opts) = 32 \<and>
    length (opt_arbitrator opts) = 32 \<and> length (opt_server opts) = 32 \<and>
    \<not> distinct [opt_buyer opts, opt_seller opts, opt_arbitrator opts, opt_server opts]
      \<longrightarrow> Script_new lib opts = Inl DuplicateKey)"
proof (intro conjI impI)
  assume "length (opt_buyer opts) \<noteq> 32 \<or> length (opt_seller opts) \<noteq> 32 \<or>
          length (opt_arbitrator opts) \<noteq> 32 \<or> length (opt_server opts) \<noteq> 32"
  from validateOptions_bad_length [OF this, of lib]
  show "\<exists>n l. Script_new lib opts = Inl (InvalidKeyLength n l) \<and> l \<noteq> 32"
    unfolding Script_new_def by auto
next
  assume a: "length (opt_buyer opts) = 32 \<and> length (opt_seller opts) = 32 \<and>
    length (opt_arbitrator opts) = 32 \<and> length (opt_server opts) = 32 \<and>
    \<not> distinct [opt_buyer opts, opt_seller opts, opt_arbitrator opts, opt_server opts]"
  then have "validateOptions lib opts = Inl DuplicateKey"
    by (intro validateOptions_duplicate) simp_all
  then show "Script_new lib opts = Inl DuplicateKey"
    unfolding Script_new_def by simp
qed

theorem Script_new_rejects_invalid_options_witness:
  "(length (opt_buyer (demo_options\<lparr>opt_buyer := replicate 31 1\<rparr>)) \<noteq> 32 \<and>
    (\<exists>n l. Script_new demo_lib (demo_options\<lparr>opt_buyer := replicate 31 1\<rparr>) =
             Inl (InvalidKeyLength n l) \<and> l \<noteq> 32)) \<and>
   (\<not> distinct [demo_key 1, demo_key 1, demo_key 3, demo_key 4] \<and>
    Script_new demo_lib (demo_options\<lparr>opt_seller := demo_key 1\<rparr>) = Inl DuplicateKey)"
  using Script_new_rejects_invalid_options
          [of "demo_options\<lparr>opt_buyer := replicate 31 1\<rparr>" demo_lib]
        Script_new_rejects_invalid_options
          [of "demo_options\<lparr>opt_seller := demo_key 1\<rparr>" demo_lib]
  by (simp add: demo_options_def demo_key_def)

section \<open>Properties of the outputs\<close>

text \<open>
  C6. For a non-negative amount the direct settlement has exactly two outputs,
  \<open>amount div 2\<close> for the buyer and the remainder \<open>amount - amount div 2\<close> for the seller;
  they add up to the amount.
\<close>

theorem createOutputsForAction_direct_settle:
  assumes "toLowerCase act = ''direct settle''"
    and "addressToScript e (address (buyer contract)) = Some sb"
    and "addressToScript e (address (seller contract)) = Some ss"
    and "0 \<le> amt"
  shows "createOutputsForAction e act contract amt =
           Some [\<lparr> amount = amt div 2, script = sb \<rparr>,
                 \<lparr> amount = amt - amt div 2, script = ss \<rparr>] \<and>
         amt div 2 + (amt - amt div 2) = amt \<and> 0 \<le> amt div 2 \<and> amt div 2 \<le> amt - amt div 2"
  using assms unfolding createOutputsForAction_def by (simp add: Let_def)

theorem createOutputsForAction_direct_settle_witness:
  "toLowerCase ''Direct Settle'' = ''direct settle'' \<and> (0::int) \<le> 101 \<and>
   createOutputsForAction (demo_env carol [demo_vtxo]) ''Direct Settle'' demo_contract 101 =
     Some [\<lparr> amount = 50, script = demo_key 1 \<rparr>, \<lparr> amount = 51, script = demo_key 2 \<rparr>]"
proof -
  have l: "toLowerCase ''Direct Settle'' = ''direct settle''" by code_simp
  have b: "addressToScript (demo_env carol [demo_vtxo]) (address (buyer demo_contract)) =
             Some (demo_key 1)" by code_simp
  have s: "addressToScript (demo_env carol [demo_vtxo]) (address (seller demo_contract)) =
             Some (demo_key 2)" by code_simp
  show ?thesis
    using createOutputsForAction_direct_settle [OF l b s, of 101] l by simp
qed

section \<open>Determinism and distinct scripts\<close>

lemma hex_digit_inj: "i < 16 \<Longrightarrow> j < 16 \<Longrightarrow> hex_digit i = hex_digit j \<Longrightarrow> i = j"
  unfolding hex_digit_def by (simp add: nth_eq_iff_index_eq)

lemma hex_of_byte_inj: "hex_of_byte a = hex_of_byte b \<Longrightarrow> a = b"
proof -
  assume h: "hex_of_byte a = hex_of_byte b"
  have la: "unat a < 256" and lb: "unat b < 256"
    using unsigned_less [of a, where ?'a = nat] unsigned_less [of b, where ?'a = nat] by simp_all
  have d: "unat a div 16 = unat b div 16"
    using h hex_digit_inj [of "unat a div 16" "unat b div 16"] la lb
    unfolding hex_of_byte_def by simp
  have m: "unat a mod 16 = unat b mod 16"
    using h hex_digit_inj [of "unat a mod 16" "unat b mod 16"]
    unfolding hex_of_byte_def by simp
  have "unat a = unat b"
    by (metis d m div_mult_mod_eq)
  then show "a = b" by (simp add: word_unat_eq_iff)
qed

lemma hex_of_bytes_Cons: "hex_of_bytes (x # xs) = hex_of_byte x @ hex_of_bytes xs"
  by (simp add: hex_of_bytes_def)

lemma length_hex_of_byte: "length (hex_of_byte x) = 2"
  by (simp add: hex_of_byte_def)

lemma hex_of_bytes_inj: "inj hex_of_bytes"
proof (rule injI)
  fix xs ys show "hex_of_bytes xs = hex_of_bytes ys \<Longrightarrow> xs = ys"
  proof (induction xs arbitrary: ys)
    case Nil
    then show ?case by (cases ys) (auto simp: hex_of_bytes_def hex_of_byte_def)
  next
    case (Cons x xs)
    show ?case
    proof (cases ys)
      case Nil
      with Cons.prems show ?thesis by (auto simp: hex_of_bytes_def hex_of_byte_def)
    next
      case (Cons y ys')
      with Cons.prems have "hex_of_byte x @ hex_of_bytes xs = hex_of_byte y @ hex_of_bytes ys'"
        by (simp add: hex_of_bytes_Cons)
      then have "hex_of_byte x = hex_of_byte y" "hex_of_bytes xs = hex_of_bytes ys'"
        by (simp_all add: append_eq_append_conv length_hex_of_byte)
      then show ?thesis using Cons Cons.IH hex_of_byte_inj by auto
    qed
  qed
qed

lemma demo_blocks_inj:
  "list_all (\<lambda>k. length k = 32) ks \<Longrightarrow> list_all (\<lambda>k. length k = 32) ks' \<Longrightarrow>
   concat (map (\<lambda>k. (0x20 :: 8 word) # k @ [0xAD]) ks) =
   concat (map (\<lambda>k. 0x20 # k @ [0xAD]) ks') \<Longrightarrow> ks = ks'"
proof (induction ks arbitrary: ks')
  case Nil
  then show ?case by (cases ks') simp_all
next
  case (Cons k ks)
  show ?case
  proof (cases ks')
    case Nil
    with Cons.prems show ?thesis by simp
  next
    case (Cons k' r)
    from Cons.prems Cons have len: "length k = length k'" by simp
    from Cons.prems Cons have
      "k @ ([0xAD] @ concat (map (\<lambda>k. (0x20 :: 8 word) # k @ [0xAD]) ks)) =
       k' @ ([0xAD] @ concat (map (\<lambda>k. 0x20 # k @ [0xAD]) r))" by simp
    with len have "k = k' \<and> [0xAD] @ concat (map (\<lambda>k. (0x20 :: 8 word) # k @ [0xAD]) ks) =
       [0xAD] @ concat (map (\<lambda>k. 0x20 # k @ [0xAD]) r)"
      using append_eq_append_conv [of k k'] by blast
    then have "k = k'"
      "concat (map (\<lambda>k. (0x20 :: 8 word) # k @ [0xAD]) ks) = concat (map (\<lambda>k. 0x20 # k @ [0xAD]) r)"
      by simp_all
    moreover from Cons.prems Cons have "list_all (\<lambda>k. length k = 32) ks" "list_all (\<lambda>k. length k = 32) r"
      by simp_all
    ultimately show ?thesis using Cons Cons.IH [of r] by simp
  qed
qed

lemma demo_multisig_inj:
  "demo_multisig ks = Some s \<Longrightarrow> demo_multisig ks' = Some s \<Longrightarrow> ks = ks'"
  unfolding demo_multisig_def by (auto split: if_splits dest: demo_blocks_inj)

lemma demo_csv_inj:
  "demo_csv ks t = Some s \<Longrightarrow> demo_csv ks' t = Some s \<Longrightarrow> ks = ks'"
  unfolding demo_csv_def by (auto dest: demo_multisig_inj)

lemma demo_disjoint: "demo_multisig ks = Some s \<Longrightarrow> demo_csv ks' t \<noteq> Some s"
  unfolding demo_csv_def demo_multisig_def by (cases ks) (auto split: if_splits)

lemma Script_scripts_distinct:
  assumes hex: "inj (hex_encode lib)"
    and ms: "\<And>ks ks' s. list_all (\<lambda>k. length k = 32) ks \<Longrightarrow> list_all (\<lambda>k. length k = 32) ks' \<Longrightarrow>
               MultisigTapscript_encode lib ks = Some s \<Longrightarrow>
               MultisigTapscript_encode lib ks' = Some s \<Longrightarrow> ks = ks'"
    and csv: "\<And>ks ks' t s. list_all (\<lambda>k. length k = 32) ks \<Longrightarrow> list_all (\<lambda>k. length k = 32) ks' \<Longrightarrow>
               CSVMultisigTapscript_encode lib ks t = Some s \<Longrightarrow>
               CSVMultisigTapscript_encode lib ks' t = Some s \<Longrightarrow> ks = ks'"
    and disj: "\<And>ks ks' t s. MultisigTapscript_encode lib ks = Some s \<Longrightarrow>
               CSVMultisigTapscript_encode lib ks' t \<noteq> Some s"
    and dist: "distinct [opt_buyer opts, opt_seller opts, opt_arbitrator opts, opt_server opts]"
    and new: "Script_new lib opts = Inr s"
  shows "distinct [releaseScript s, refundScript s, directScript s,
                   unilateralReleaseScript s, unilateralRefundScript s, unilateralDirectScript s]"
proof -
  from new have v: "validateOptions lib opts = Inr ()"
    unfolding Script_new_def by (auto split: sum.splits)
  then have len: "length (opt_buyer opts) = 32" "length (opt_seller opts) = 32"
      "length (opt_arbitrator opts) = 32" "length (opt_server opts) = 32"
    unfolding validateOptions_def by (auto split: sum.splits if_splits simp: check_key_lengths_ok)
  from new v obtain r1 r2 r3 u1 u2 u3 where
    e: "MultisigTapscript_encode lib [opt_seller opts, opt_arbitrator opts, opt_server opts] = Some r1"
       "MultisigTapscript_encode lib [opt_buyer opts, opt_arbitrator opts, opt_server opts] = Some r2"
       "MultisigTapscript_encode lib [opt_buyer opts, opt_seller opts, opt_server opts] = Some r3"
       "CSVMultisigTapscript_encode lib [opt_seller opts, opt_arbitrator opts] (unilateralDelay opts) = Some u1"
       "CSVMultisigTapscript_encode lib [opt_buyer opts, opt_arbitrator opts] (unilateralDelay opts) = Some u2"
       "CSVMultisigTapscript_encode lib [opt_buyer opts, opt_seller opts] (unilateralDelay opts) = Some u3"
    and s: "releaseScript s = hex_encode lib r1" "refundScript s = hex_encode lib r2"
       "directScript s = hex_encode lib r3" "unilateralReleaseScript s = hex_encode lib u1"
       "unilateralRefundScript s = hex_encode lib u2" "unilateralDirectScript s = hex_encode lib u3"
    unfolding Script_new_def by (auto split: option.splits sum.splits simp: bind_eq_Some_conv)
  have msI: "\<And>ks ks' a b. MultisigTapscript_encode lib ks = Some a \<Longrightarrow>
      MultisigTapscript_encode lib ks' = Some b \<Longrightarrow> list_all (\<lambda>k. length k = 32) ks \<Longrightarrow>
      list_all (\<lambda>k. length k = 32) ks' \<Longrightarrow> ks \<noteq> ks' \<Longrightarrow> a \<noteq> b"
    using ms by blast
  have csvI: "\<And>ks ks' t a b. CSVMultisigTapscript_encode lib ks t = Some a \<Longrightarrow>
      CSVMultisigTapscript_encode lib ks' t = Some b \<Longrightarrow> list_all (\<lambda>k. length k = 32) ks \<Longrightarrow>
      list_all (\<lambda>k. length k = 32) ks' \<Longrightarrow> ks \<noteq> ks' \<Longrightarrow> a \<noteq> b"
    using csv by blast
  have m12: "r1 \<noteq> r2" using msI [OF e(1) e(2)] len dist by auto
  have m13: "r1 \<noteq> r3" using msI [OF e(1) e(3)] len dist by auto
  have m23: "r2 \<noteq> r3" using msI [OF e(2) e(3)] len dist by auto
  have c12: "u1 \<noteq> u2" using csvI [OF e(4) e(5)] len dist by auto
  have c13: "u1 \<noteq> u3" using csvI [OF e(4) e(6)] len dist by auto
  have c23: "u2 \<noteq> u3" using csvI [OF e(5) e(6)] len dist by auto
  have x: "r1 \<noteq> u1" "r1 \<noteq> u2" "r1 \<noteq> u3" "r2 \<noteq> u1" "r2 \<noteq> u2" "r2 \<noteq> u3"
          "r3 \<noteq> u1" "r3 \<noteq> u2" "r3 \<noteq> u3"
    using disj e by metis+
  show ?thesis
    using m12 m13 m23 c12 c13 c23 x hex by (auto simp: s inj_eq)
qed

lemma contractAddress_keys_only:
  assumes "pubkey (buyer c) = pubkey (buyer c')" "pubkey (seller c) = pubkey (seller c')"
    "pubkey (arbitrator c) = pubkey (arbitrator c')"
  shows "contractAddress e c = contractAddress e c'"
  using assms unfolding contractAddress_def restoreScript_def by simp

text \<open>
  C8. Let the library's hex and script encoders be injective on lists of 32-byte keys, with
  no plain multisig script equal to a timelocked one. For four pairwise distinct 32-byte keys
  and any timelock, the address depends on nothing but the four keys and the timelock
  (options that agree on them give the same address, and two contract records with the same
  three party keys have the same address under the same server), and the six scripts of a
  constructed escrow script are pairwise distinct.
\<close>

theorem escrow_address_deterministic_scripts_distinct:
  assumes hex: "inj (hex_encode (lib :: 'vs sdk))"
    and ms: "\<forall>ks ks' s. list_all (\<lambda>k. length k = 32) ks \<and> list_all (\<lambda>k. length k = 32) ks' \<and>
               MultisigTapscript_encode lib ks = Some s \<and>
               MultisigTapscript_encode lib ks' = Some s \<longrightarrow> ks = ks'"
    and csv: "\<forall>ks ks' t s. list_all (\<lambda>k. length k = 32) ks \<and> list_all (\<lambda>k. length k = 32) ks' \<and>
               CSVMultisigTapscript_encode lib ks t = Some s \<and>
               CSVMultisigTapscript_encode lib ks' t = Some s \<longrightarrow> ks = ks'"
    and disj: "\<forall>ks ks' t s. MultisigTapscript_encode lib ks = Some s \<longrightarrow>
               CSVMultisigTapscript_encode lib ks' t \<noteq> Some s"
    and len: "length (opt_buyer opts) = 32" "length (opt_seller opts) = 32"
             "length (opt_arbitrator opts) = 32" "length (opt_server opts) = 32"
    and dist: "distinct [opt_buyer opts, opt_seller opts, opt_arbitrator opts, opt_server opts]"
  shows "(\<forall>opts' s s' prefix k.
            opt_buyer opts' = opt_buyer opts \<and> opt_seller opts' = opt_seller opts \<and>
            opt_arbitrator opts' = opt_arbitrator opts \<and> opt_server opts' = opt_server opts \<and>
            unilateralDelay opts' = unilateralDelay opts \<and>
            Script_new lib opts = Inr s \<and> Script_new lib opts' = Inr s'
              \<longrightarrow> Script_address lib s' prefix k = Script_address lib s prefix k) \<and>
         (\<forall>e c c'. pubkey (buyer c) = pubkey (buyer c') \<and> pubkey (seller c) = pubkey (seller c') \<and>
            pubkey (arbitrator c) = pubkey (arbitrator c')
              \<longrightarrow> contractAddress (e :: ('tx, 'ws, 'leaf) env) c = contractAddress e c') \<and>
         (\<forall>s. Script_new lib opts = Inr s \<longrightarrow>
            distinct [releaseScript s, refundScript s, directScript s,
                      unilateralReleaseScript s, unilateralRefundScript s,
                      unilateralDirectScript s])"
proof (intro conjI allI impI)
  fix opts' :: Options and s s' :: "'vs Script" and prefix k
  assume a: "opt_buyer opts' = opt_buyer opts \<and> opt_seller opts' = opt_seller opts \<and>
            opt_arbitrator opts' = opt_arbitrator opts \<and> opt_server opts' = opt_server opts \<and>
            unilateralDelay opts' = unilateralDelay opts \<and>
            Script_new lib opts = Inr s \<and> Script_new lib opts' = Inr s'"
  then have "opts' = opts" by (cases opts, cases opts') simp
  with a show "Script_address lib s' prefix k = Script_address lib s prefix k" by auto
next
  fix e :: "('tx, 'ws, 'leaf) env" and c c' :: EscrowContract
  assume "pubkey (buyer c) = pubkey (buyer c') \<and> pubkey (seller c) = pubkey (seller c') \<and>
            pubkey (arbitrator c) = pubkey (arbitrator c')"
  then show "contractAddress e c = contractAddress e c'"
    by (intro contractAddress_keys_only) simp_all
next
  fix s assume "Script_new lib opts = Inr s"
  from Script_scripts_distinct [OF hex _ _ _ dist this] ms csv disj
  show "distinct [releaseScript s, refundScript s, directScript s,
                      unilateralReleaseScript s, unilateralRefundScript s,
                      unilateralDirectScript s]" by blast
qed

lemma demo_Script_new_ok:
  "(case Script_new demo_lib demo_options of Inl e \<Rightarrow> False | Inr s \<Rightarrow> True)"
  by code_simp

theorem escrow_address_deterministic_scripts_distinct_witness:
  "length (demo_key 1) = 32 \<and> distinct [demo_key 1, demo_key 2, demo_key 3, demo_key 4] \<and>
   (case Script_new demo_lib demo_options of
      Inl e \<Rightarrow> False
    | Inr s \<Rightarrow>
        distinct [releaseScript s, refundScript s, directScript s,
                  unilateralReleaseScript s, unilateralRefundScript s,
                  unilateralDirectScript s])"
proof -
  have hex: "inj (hex_encode demo_lib)"
    by (simp add: demo_lib_def hex_of_bytes_inj)
  have ms: "\<forall>ks ks' s. list_all (\<lambda>k. length k = 32) ks \<and> list_all (\<lambda>k. length k = 32) ks' \<and>
               MultisigTapscript_encode demo_lib ks = Some s \<and>
               MultisigTapscript_encode demo_lib ks' = Some s \<longrightarrow> ks = ks'"
    using demo_multisig_inj by (auto simp: demo_lib_def)
  have csv: "\<forall>ks ks' t s. list_all (\<lambda>k. length k = 32) ks \<and> list_all (\<lambda>k. length k = 32) ks' \<and>
               CSVMultisigTapscript_encode demo_lib ks t = Some s \<and>
               CSVMultisigTapscript_encode demo_lib ks' t = Some s \<longrightarrow> ks = ks'"
    using demo_csv_inj by (auto simp: demo_lib_def)
  have disj: "\<forall>ks ks' t s. MultisigTapscript_encode demo_lib ks = Some s \<longrightarrow>
               CSVMultisigTapscript_encode demo_lib ks' t \<noteq> Some s"
    by (simp add: demo_lib_def demo_disjoint)
  have len: "length (opt_buyer demo_options) = 32" "length (opt_seller demo_options) = 32"
             "length (opt_arbitrator demo_options) = 32" "length (opt_server demo_options) = 32"
    by (simp_all add: demo_options_def demo_key_def)
  have dist: "distinct [opt_buyer demo_options, opt_seller demo_options,
                        opt_arbitrator demo_options, opt_server demo_options]"
    by (simp add: demo_options_def demo_key_def)
  from escrow_address_deterministic_scripts_distinct [OF hex ms csv disj len dist]
  have "\<forall>s. Script_new demo_lib demo_options = Inr s \<longrightarrow>
            distinct [releaseScript s, refundScript s, directScript s,
                      unilateralReleaseScript s, unilateralRefundScript s,
                      unilateralDirectScript s]" by blast
  with demo_Script_new_ok len dist show ?thesis
    by (auto simp: demo_options_def split: sum.splits)
qed

section \<open>The concrete instance is coherent\<close>

text \<open>
  The key texts are the hex encodings of the keys, the contract is registered under the
  address the script derives for it, and \<open>release_pending\<close> holds the pending transaction
  that Bob's release creates.
\<close>

lemma demo_keys_hex:
  "carol_pk = hex_of_bytes (demo_key 1) \<and> bob_pk = hex_of_bytes (demo_key 2) \<and>
   alice_pk = hex_of_bytes (demo_key 3) \<and> server_pk = hex_of_bytes (demo_key 4)"
  by code_simp

lemma demo_contract_address:
  "map_option encode (contractAddress (demo_env bob [demo_vtxo]) demo_contract) =
     Some (arkAddress demo_contract)"
  by code_simp

lemma release_pending_created:
  "pendingOf (executeContractAction (demo_env bob [demo_vtxo]) 0 ''Release'' bob demo_state) 0 =
     pendingOf release_pending 0"
  by code_simp

section \<open>How the state transformers act on a state\<close>

lemma emit_fields [simp]:
  "heap (emit ev st) = heap st" "contracts (emit ev st) = contracts st"
  "timers (emit ev st) = timers st" "clock (emit ev st) = clock st"
  "trace (emit ev st) = trace st @ [ev]"
  by (simp_all add: emit_def)

lemma set_pending_fields [simp]:
  "contracts (set_pending r p st) = contracts st" "timers (set_pending r p st) = timers st"
  "clock (set_pending r p st) = clock st" "trace (set_pending r p st) = trace st"
  "arkAddress (heap (set_pending r p st) r') = arkAddress (heap st r')"
  by (simp_all add: set_pending_def)

lemma pendingOf_emit [simp]: "pendingOf (emit ev st) r = pendingOf st r"
  by (simp add: pendingOf_def)

lemma pendingOf_set_pending [simp]:
  "pendingOf (set_pending r p st) r' = (if r' = r then p else pendingOf st r')"
  by (simp add: pendingOf_def set_pending_def)

lemma update_partialTx_fields [simp]:
  "contracts (update_partialTx r f st) = contracts st" "timers (update_partialTx r f st) = timers st"
  "clock (update_partialTx r f st) = clock st" "trace (update_partialTx r f st) = trace st"
  "arkAddress (heap (update_partialTx r f st) r') = arkAddress (heap st r')"
  by (simp_all add: update_partialTx_def)

lemma pendingOf_update_partialTx [simp]:
  "pendingOf (update_partialTx r f st) r' =
     (if r' = r then map_option (\<lambda>p. p\<lparr>partialTx := map_option f (partialTx p)\<rparr>) (pendingOf st r)
      else pendingOf st r')"
  by (simp add: update_partialTx_def pendingOf_def [of st])

lemma update_pending_fields [simp]:
  "contracts (update_pending r f st) = contracts st" "timers (update_pending r f st) = timers st"
  "clock (update_pending r f st) = clock st" "trace (update_pending r f st) = trace st"
  "arkAddress (heap (update_pending r f st) r') = arkAddress (heap st r')"
  by (simp_all add: update_pending_def)

lemma pendingOf_update_pending [simp]:
  "pendingOf (update_pending r f st) r' =
     (if r' = r then map_option f (pendingOf st r) else pendingOf st r')"
  by (simp add: update_pending_def pendingOf_def [of st])

lemma registerPending_fields [simp]:
  "contracts (registerPending a p st) = contracts st"
  "timers (registerPending a p st) = timers st"
  "clock (registerPending a p st) = clock st"
  "arkAddress (heap (registerPending a p st) r') = arkAddress (heap st r')"
  by (simp_all add: registerPending_def Let_def split: option.splits)

lemma pendingOf_registerPending [simp]:
  "pendingOf (registerPending a p st) r =
     (if contracts st a = Some r then p else pendingOf st r)"
  by (auto simp: registerPending_def Let_def split: option.splits)

lemma announcePending_fields [simp]:
  "heap (announcePending e a p st) = heap st"
  "contracts (announcePending e a p st) = contracts st"
  "timers (announcePending e a p st) = timers st"
  "clock (announcePending e a p st) = clock st"
  by (simp_all add: announcePending_def split: option.splits)

lemma pendingOf_announcePending [simp]:
  "pendingOf (announcePending e a p st) r = pendingOf st r"
  by (simp add: pendingOf_def)

lemma updateContract_fields [simp]:
  "contracts (updateContractPendingTransaction e a p st) = contracts st"
  "timers (updateContractPendingTransaction e a p st) = timers st"
  "clock (updateContractPendingTransaction e a p st) = clock st"
  "arkAddress (heap (updateContractPendingTransaction e a p st) r') = arkAddress (heap st r')"
  by (simp_all add: updateContractPendingTransaction_def)

lemma pendingOf_updateContract [simp]:
  "pendingOf (updateContractPendingTransaction e a p st) r =
     (if contracts st a = Some r then p else pendingOf st r)"
  by (simp add: updateContractPendingTransaction_def)

lemma chainCalls_append [simp]: "chainCalls (xs @ ys) = chainCalls xs @ chainCalls ys"
  by (simp add: chainCalls_def)

lemma chainCalls_Nil [simp]: "chainCalls [] = []"
  by (simp add: chainCalls_def)

lemma chainCalls_Cons [simp]:
  "chainCalls (ev # evs) = (if isChainCall ev then ev # chainCalls evs else chainCalls evs)"
  by (simp add: chainCalls_def)

lemma chainCalls_registerPending [simp]:
  "chainCalls (trace (registerPending a p st)) = chainCalls (trace st)"
  by (simp add: registerPending_def Let_def split: option.splits)

lemma chainCalls_announcePending [simp]:
  "chainCalls (trace (announcePending e a p st)) = chainCalls (trace st)"
  by (simp add: announcePending_def split: option.splits)

lemma chainCalls_updateContract [simp]:
  "chainCalls (trace (updateContractPendingTransaction e a p st)) = chainCalls (trace st)"
  by (simp add: updateContractPendingTransaction_def)

lemma pendingOf_heap: "pendingTransaction (heap st r) = pendingOf st r"
  by (simp add: pendingOf_def)

text \<open>Signing: what the pending transaction looks like afterwards.\<close>

lemma signTransactionsForUser_result:
  assumes "pendingOf st r = Some p" "partialTx p = Some ptx"
  shows "signTransactionsForUser e r w st =
     (case getWalletForSigner e (wallet_pubkey w) of
        None \<Rightarrow> (False, st)
      | Some aw \<Rightarrow>
          (case signPSBT e aw None (arkTx ptx) of
             None \<Rightarrow> (False, st)
           | Some a \<Rightarrow>
               (case those (map (signPSBT e aw (Some [0])) (checkpoints ptx)) of
                  None \<Rightarrow> (False, update_partialTx r (\<lambda>t. t\<lparr>arkTx := a\<rparr>) st)
                | Some cs \<Rightarrow>
                    (True, update_partialTx r (\<lambda>t. t\<lparr>checkpoints := cs\<rparr>)
                             (update_partialTx r (\<lambda>t. t\<lparr>arkTx := a\<rparr>) st)))))"
  using assms unfolding signTransactionsForUser_def
  by (simp add: pendingOf_heap Let_def split: option.splits)

lemma allApproved_iff:
  "allApproved p ptx \<longleftrightarrow> set (requiredSigners ptx) \<union> {initiator p} \<subseteq> set (approvals ptx)"
  by (auto simp: allApproved_def list_all_iff)

section \<open>The guards of approve and reject\<close>

text \<open>
  What the guards of the two operations do when they fire: the error is shown and nothing
  else changes.
\<close>

lemma approve_not_required:
  assumes "pendingOf st r = Some p" "partialTx p = Some ptx"
    and "wallet_pubkey w \<notin> set (requiredSigners ptx)"
  shows "approvePendingTransaction e r w st = emit (ShowError NotRequired) st"
  using assms unfolding approvePendingTransaction_def by (simp add: pendingOf_heap)

lemma approve_already_approved:
  assumes "pendingOf st r = Some p" "partialTx p = Some ptx"
    and "wallet_pubkey w \<in> set (requiredSigners ptx)"
    and "wallet_pubkey w \<in> set (approvals ptx)"
  shows "approvePendingTransaction e r w st = emit (ShowError AlreadyApproved) st"
  using assms unfolding approvePendingTransaction_def by (simp add: pendingOf_heap)

lemma reject_not_required:
  assumes "pendingOf st r = Some p" "partialTx p = Some ptx"
    and "wallet_pubkey w \<notin> set (requiredSigners ptx)"
  shows "rejectPendingTransaction e r w st = emit (ShowError NotAuthorizedToReject) st"
  using assms unfolding rejectPendingTransaction_def by (simp add: pendingOf_heap)

text \<open>
  A required signer's reject always goes through: the status becomes \<open>rejected\<close> at once and
  the clearing is scheduled \<open>graceDelay\<close> milliseconds later.
\<close>

lemma reject_marks_rejected:
  assumes "pendingOf st r = Some p" "partialTx p = Some ptx"
    and "wallet_pubkey w \<in> set (requiredSigners ptx)"
  shows "statusOf (rejectPendingTransaction e r w st) r = Some rejected \<and>
         timers (rejectPendingTransaction e r w st) = timers st @ [(clock st + graceDelay, r)]"
  using assms unfolding rejectPendingTransaction_def statusOf_def
  by (simp add: pendingOf_heap Let_def pendingOf_def [of "_\<lparr>timers := _\<rparr>"]
           del: pendingOf_update_pending pendingOf_update_partialTx)
     (simp add: pendingOf_def [symmetric])

text \<open>
  C1. The specification expects \<open>approve\<close> to fail for a signer who has rejected, and
  \<open>reject\<close> to fail for a signer who has approved or rejected already, leaving the pending
  transaction untouched. The operations have no such guards. Alice has approved a release whose
  execution then failed, so the transaction is still \<open>pending_cosign\<close> with her approval;
  her reject is accepted: the status becomes \<open>rejected\<close>, she is added to the rejections,
  and no error is shown. And after rejecting a fresh release, her approve is accepted as
  well: the transaction is submitted and finalized.
\<close>

theorem reject_after_own_approval:
  "statusOf approved_unexecuted 0 = Some pending_cosign \<and>
   map_option approvals (partialOf approved_unexecuted 0) = Some [bob_pk, alice_pk] \<and>
   map_option rejections (partialOf approved_unexecuted 0) = Some [] \<and>
   statusOf (rejectPendingTransaction (demo_env alice [demo_vtxo]) 0 alice approved_unexecuted) 0 =
     Some rejected \<and>
   map_option rejections
     (partialOf (rejectPendingTransaction (demo_env alice [demo_vtxo]) 0 alice
                   approved_unexecuted) 0) = Some [alice_pk] \<and>
   errorsOf (trace (rejectPendingTransaction (demo_env alice [demo_vtxo]) 0 alice
                      approved_unexecuted)) = errorsOf (trace approved_unexecuted) \<and>
   map_option rejections (partialOf rejected_release 0) = Some [alice_pk] \<and>
   chainCalls (trace (approvePendingTransaction (demo_env alice [demo_vtxo]) 0 alice
                        rejected_release)) =
     [SubmitTx [0x70, 2, 3] [[0x71, 2, 3]], FinalizeTx ''ark-txid'' [[0x71, 2, 3]]]"
  by code_simp

section \<open>A signing failure in the middle of approve\<close>

lemma approve_spend_signing_fails:
  assumes "pendingOf st r = Some p" "partialTx p = Some ptx"
    and "wallet_pubkey w \<in> set (requiredSigners ptx)" "wallet_pubkey w \<notin> set (approvals ptx)"
    and "getWalletForSigner e (wallet_pubkey w) = Some aw"
    and "signPSBT e aw None (arkTx ptx) = None"
  shows "approvePendingTransaction e r w st =
           emit (ShowError FailedToApprove) (emit (ShowInfo Signing) st)"
  using assms signTransactionsForUser_result [of "emit (ShowInfo Signing) st" r p ptx e w]
  unfolding approvePendingTransaction_def by (simp add: pendingOf_heap)

text \<open>
  C2. The specification expects a failed signing step to leave the pending transaction
  exactly as it was. When the spend transaction is signed and a checkpoint then fails, the signed spend
  transaction has already been stored: here the stored bytes gain Alice's signature while
  the checkpoints and the approvals stay as they were, and the approve reports a failure.
\<close>

theorem approve_checkpoint_failure_partial_update:
  "map_option arkTx (partialOf release_pending 0) = Some [0x70, 2] \<and>
   map_option arkTx
     (partialOf (approvePendingTransaction (demo_env alice_failing_on_checkpoints [demo_vtxo]) 0
                   alice_failing_on_checkpoints release_pending) 0) = Some [0x70, 2, 3] \<and>
   map_option checkpoints
     (partialOf (approvePendingTransaction (demo_env alice_failing_on_checkpoints [demo_vtxo]) 0
                   alice_failing_on_checkpoints release_pending) 0) = Some [[0x71, 2]] \<and>
   map_option approvals
     (partialOf (approvePendingTransaction (demo_env alice_failing_on_checkpoints [demo_vtxo]) 0
                   alice_failing_on_checkpoints release_pending) 0) = Some [bob_pk] \<and>
   errorsOf (trace (approvePendingTransaction (demo_env alice_failing_on_checkpoints [demo_vtxo]) 0
                      alice_failing_on_checkpoints release_pending)) = [FailedToApprove]"
  by code_simp

section \<open>Completion and execution\<close>

text \<open>
  C3, as the specification states it, fails: with every approval present the execution may
  perform no submit at all. Alice's approval completes the release while the application is
  disconnected from the server; the approvals are complete and no call reaches the chain.
\<close>

theorem approve_offline_no_submit:
  "statusOf release_pending 0 = Some pending_cosign \<and>
   approvalsComplete
     (approvePendingTransaction (offline_env alice [demo_vtxo]) 0 alice release_pending) 0 \<and>
   chainCalls
     (trace (approvePendingTransaction (offline_env alice [demo_vtxo]) 0 alice release_pending)) =
     [] \<and>
   errorsOf
     (trace (approvePendingTransaction (offline_env alice [demo_vtxo]) 0 alice release_pending)) =
     [FailedToExecute]"
  by code_simp

text \<open>
  C3, amended. Let a required signer who has not approved yet approve a \<open>pending_cosign\<close>
  transaction, and let the signing of the spend transaction and of every checkpoint
  succeed. The completion test is membership of every required signer and of the initiator
  in the approvals. When it fails, no call reaches the chain and the transaction stays
  pending with the new signatures and the new approval. When it holds, one execution is
  attempted: no call when the provider is disconnected or the stored bytes do not decode;
  otherwise one submit, and one finalize with the same checkpoints only after the submit has
  returned an id. The pending transaction is cleared exactly when submit and finalize both
  succeed; after any failure it is still pending with every signature and approval kept.
\<close>

theorem approve_completion:
  assumes pend: "pendingOf st r = Some p" and part: "partialTx p = Some ptx"
    and stat: "status p = pending_cosign"
    and req: "wallet_pubkey w \<in> set (requiredSigners ptx)"
    and napp: "wallet_pubkey w \<notin> set (approvals ptx)"
    and wal: "getWalletForSigner e (wallet_pubkey w) = Some aw"
    and sa: "signPSBT e aw None (arkTx ptx) = Some a"
    and sc: "those (map (signPSBT e aw (Some [0])) (checkpoints ptx)) = Some cs"
  defines "p' \<equiv> p\<lparr>partialTx := Some (ptx\<lparr>arkTx := a, checkpoints := cs,
                                          approvals := approvals ptx @ [wallet_pubkey w]\<rparr>)\<rparr>"
    and "st' \<equiv> approvePendingTransaction e r w st"
    and "complete \<equiv> set (requiredSigners ptx) \<union> {initiator p}
                       \<subseteq> set (approvals ptx) \<union> {wallet_pubkey w}"
  shows "status p' = pending_cosign \<and>
         (\<not> complete \<longrightarrow>
            chainCalls (trace st') = chainCalls (trace st) \<and> pendingOf st' r = Some p') \<and>
         (complete \<longrightarrow>
            (case provider e of
               None \<Rightarrow> chainCalls (trace st') = chainCalls (trace st) \<and> pendingOf st' r = Some p'
             | Some arkProvider \<Rightarrow>
                 (case fromPSBT e a of
                    None \<Rightarrow>
                      chainCalls (trace st') = chainCalls (trace st) \<and> pendingOf st' r = Some p'
                  | Some tx \<Rightarrow>
                      (case submitTx arkProvider (toPSBT e tx) cs of
                         None \<Rightarrow>
                           chainCalls (trace st') =
                             chainCalls (trace st) @ [SubmitTx (toPSBT e tx) cs] \<and>
                           pendingOf st' r = Some p'
                       | Some arkTxid \<Rightarrow>
                           chainCalls (trace st') =
                             chainCalls (trace st) @
                               [SubmitTx (toPSBT e tx) cs, FinalizeTx arkTxid cs] \<and>
                           pendingOf st' r =
                             (if finalizeTx arkProvider arkTxid cs then None else Some p')))))"
proof -
  let ?st0 = "emit (ShowInfo Signing) st"
  let ?st1 = "update_partialTx r (\<lambda>t. t\<lparr>checkpoints := cs\<rparr>)
                (update_partialTx r (\<lambda>t. t\<lparr>arkTx := a\<rparr>) ?st0)"
  let ?st2 = "update_partialTx r (\<lambda>t. t\<lparr>approvals := approvals t @ [wallet_pubkey w]\<rparr>) ?st1"
  have sign: "signTransactionsForUser e r w ?st0 = (True, ?st1)"
    using signTransactionsForUser_result [of ?st0 r p ptx e w] pend part wal sa sc by simp
  have p2: "pendingOf ?st2 r = Some p'"
    using pend part by (simp add: p'_def)
  have tr2: "chainCalls (trace ?st2) = chainCalls (trace st)" by simp
  have all: "allApproved p' (ptx\<lparr>arkTx := a, checkpoints := cs,
                                  approvals := approvals ptx @ [wallet_pubkey w]\<rparr>) = complete"
    by (auto simp: allApproved_iff p'_def complete_def)
  have st'_eq: "st' =
      (if complete then
         (case executeMultiSigTransaction e r ?st2 of
            (False, st3) \<Rightarrow> emit (ShowError FailedToApprove) st3
          | (True, st3) \<Rightarrow> st3)
       else updateContractPendingTransaction e (arkAddress (heap ?st2 r)) (Some p')
              (emit (ShowSuccess WaitingForSignatures) ?st2))"
    unfolding st'_def approvePendingTransaction_def
    using pend part req napp sign p2 all
    by (simp add: pendingOf_heap p'_def del: pendingOf_update_partialTx)
  have s: "status p' = pending_cosign" using stat by (simp add: p'_def)
  have nc: "\<not> complete \<longrightarrow>
            chainCalls (trace st') = chainCalls (trace st) \<and> pendingOf st' r = Some p'"
    using st'_eq p2 by (simp del: pendingOf_update_partialTx)
  have c: "complete \<longrightarrow>
            (case provider e of
               None \<Rightarrow> chainCalls (trace st') = chainCalls (trace st) \<and> pendingOf st' r = Some p'
             | Some arkProvider \<Rightarrow>
                 (case fromPSBT e a of
                    None \<Rightarrow>
                      chainCalls (trace st') = chainCalls (trace st) \<and> pendingOf st' r = Some p'
                  | Some tx \<Rightarrow>
                      (case submitTx arkProvider (toPSBT e tx) cs of
                         None \<Rightarrow>
                           chainCalls (trace st') =
                             chainCalls (trace st) @ [SubmitTx (toPSBT e tx) cs] \<and>
                           pendingOf st' r = Some p'
                       | Some arkTxid \<Rightarrow>
                           chainCalls (trace st') =
                             chainCalls (trace st) @
                               [SubmitTx (toPSBT e tx) cs, FinalizeTx arkTxid cs] \<and>
                           pendingOf st' r =
                             (if finalizeTx arkProvider arkTxid cs then None else Some p'))))"
    using st'_eq p2 tr2 unfolding executeMultiSigTransaction_def
    by (simp add: Let_def pendingOf_heap p'_def del: pendingOf_update_partialTx
             split: option.splits)
  from s nc c show ?thesis by blast
qed

theorem approve_completion_witness:
  "pendingOf release_pending 0 = Some release_tx \<and>
   status release_tx = pending_cosign \<and>
   pendingOf (approvePendingTransaction (demo_env alice [demo_vtxo]) 0 alice release_pending) 0 = None \<and>
   chainCalls (trace (approvePendingTransaction (demo_env alice [demo_vtxo]) 0 alice
                        release_pending)) =
     [SubmitTx [0x70, 2, 3] [[0x71, 2, 3]], FinalizeTx ''ark-txid'' [[0x71, 2, 3]]]"
proof -
  let ?ptx = "\<lparr> vtxo = \<lparr> txid = txid demo_vtxo, vout = vout demo_vtxo,
                          vtxo_value = vtxo_value demo_vtxo \<rparr>,
                 arkTx = [0x70, 2], checkpoints = [[0x71, 2]],
                 requiredSigners = [alice_pk], initiatorSigned = True,
                 approvals = [bob_pk], rejections = [] \<rparr>"
  have h1: "pendingOf release_pending 0 = Some release_tx"
    by (simp add: release_pending_def)
  have h2: "partialTx release_tx = Some ?ptx"
    by (simp add: release_tx_def newPendingTransaction_def bob_pk_def alice_pk_def)
  have h3: "status release_tx = pending_cosign"
    by (simp add: release_tx_def newPendingTransaction_def)
  have h4: "wallet_pubkey alice \<in> set (requiredSigners ?ptx)"
    by (simp add: alice_def demo_wallet_def)
  have h5: "wallet_pubkey alice \<notin> set (approvals ?ptx)"
    by (simp add: alice_def demo_wallet_def alice_pk_def bob_pk_def)
  have h6: "getWalletForSigner (demo_env alice [demo_vtxo]) (wallet_pubkey alice) = Some alice"
    by (simp add: getWalletForSigner_def demo_env_def)
  have h7: "signPSBT (demo_env alice [demo_vtxo]) alice None (arkTx ?ptx) = Some [0x70, 2, 3]"
    by (simp add: signPSBT_def demo_env_def alice_def demo_wallet_def)
  have h8: "those (map (signPSBT (demo_env alice [demo_vtxo]) alice (Some [0])) (checkpoints ?ptx)) =
              Some [[0x71, 2, 3]]"
    by (simp add: signPSBT_def demo_env_def alice_def demo_wallet_def)
  have t: "chainCalls (trace release_pending) = []"
    by (simp add: release_pending_def demo_state_def)
  have c: "set (requiredSigners ?ptx) \<union> {initiator release_tx}
             \<subseteq> set (approvals ?ptx) \<union> {wallet_pubkey alice}"
    by (simp add: release_tx_def newPendingTransaction_def alice_def demo_wallet_def)
  from approve_completion [OF h1 h2 h3 h4 h5 h6 h7 h8] c t h1 h3
  show ?thesis
    by (simp add: demo_env_def demo_provider_def)
qed

section \<open>Funding\<close>

lemma fund_requires_buyer:
  assumes "toLowerCase act = ''fund''" "getUserRole contract (wallet_pubkey w) \<noteq> Some Buyer"
  shows "getRequiredSignersForAction act contract w = []"
  using assms unfolding getRequiredSignersForAction_def by (simp add: Let_def)

text \<open>On a contract without funds the interface offers \<open>Fund\<close> to the seller, and to nobody else.\<close>

lemma fund_offered_to_seller_only:
  "getAvailableActions \<lparr> escrow_status = created, balance = Some 0, vtxoExists = False \<rparr>
     (Some ''seller'') = [''Fund''] \<and>
   getAvailableActions \<lparr> escrow_status = created, balance = Some 0, vtxoExists = False \<rparr>
     (Some ''buyer'') = []"
  by (simp add: getAvailableActions_def)

text \<open>The funding branch never looks at the initiator: any two wallets give the same result.\<close>

lemma fund_ignores_initiator:
  assumes "toLowerCase act = ''fund''"
  shows "executeContractAction e r act w st = executeContractAction e r act w' st"
  using assms unfolding executeContractAction_def by (simp add: Let_def split: option.splits)

text \<open>
  C4. The specification expects a fund action by anyone but the buyer to end with
  \<open>NotAuthorized\<close> and without a transfer. \<open>getRequiredSignersForAction\<close> does return no signer for such an
  initiator, but the funding branch returns before it is consulted: Bob, the seller, funds
  the empty contract, and the whole balance of the current wallet is sent to the escrow
  address.
\<close>

theorem fund_by_seller_transfers:
  "getUserRole demo_contract (wallet_pubkey bob) = Some Seller \<and>
   getRequiredSignersForAction ''Fund'' demo_contract bob = [] \<and>
   trace (executeContractAction (demo_env bob []) 0 ''Fund'' bob demo_state) =
     [ShowInfo SendingTransaction, SendBitcoin (arkAddress demo_contract) 1000,
      ShowSuccess TransactionSent]"
  by code_simp

section \<open>Creating over an existing pending transaction\<close>

lemma errorsOf_append [simp]: "errorsOf (xs @ ys) = errorsOf xs @ errorsOf ys"
  by (induction xs rule: errorsOf.induct) simp_all

lemma errorsOf_registerPending [simp]:
  "errorsOf (trace (registerPending a p st)) = errorsOf (trace st)"
  by (simp add: registerPending_def Let_def split: option.splits)

lemma errorsOf_announcePending [simp]:
  "errorsOf (trace (announcePending e a p st)) = errorsOf (trace st)"
  by (simp add: announcePending_def split: option.splits)

lemma errorsOf_updateContract [simp]:
  "errorsOf (trace (updateContractPendingTransaction e a p st)) = errorsOf (trace st)"
  by (simp add: updateContractPendingTransaction_def)

lemma restoreScript_ignores_pending:
  "restoreScript e (contract\<lparr>pendingTransaction := x\<rparr>) = restoreScript e contract"
  unfolding restoreScript_def by simp

lemma createOutputsForAction_ignores_pending:
  "createOutputsForAction e act (contract\<lparr>pendingTransaction := x\<rparr>) amt =
   createOutputsForAction e act contract amt"
  unfolding createOutputsForAction_def by (simp add: Let_def)

lemma createEscrowTransaction_ignores_pending:
  "createEscrowTransaction e (contract\<lparr>pendingTransaction := x\<rparr>) act v =
   createEscrowTransaction e contract act v"
  unfolding createEscrowTransaction_def
  by (simp only: restoreScript_ignores_pending createOutputsForAction_ignores_pending)

text \<open>
  C10. On a contract object that already has a pending transaction and is registered under
  its address, a non-fund action by an authorised initiator on a funded contract raises no
  state conflict. When the transaction is built and signed, the new pending transaction
  replaces the old one: its approvals are the initiator alone, its rejections are empty,
  and nothing of it depends on the old one. When building or signing throws, the only
  error is \<open>FailedToCreate\<close> and the state is otherwise unchanged.
\<close>

theorem executeContractAction_overwrites_pending:
  assumes old: "pendingOf st r = Some old"
    and nf: "toLowerCase act \<noteq> ''fund''"
    and addr: "contractAddress e (heap st r) = Some addr"
    and funds: "getVtxos e (hex_encode (library e) (pkScript addr)) = Some (v # vs)"
    and auth: "getRequiredSignersForAction act (heap st r) w = required" "required \<noteq> []"
    and reg: "contracts st (encode addr) = Some r"
  shows "(\<forall>tx cps sa scs.
            createEscrowTransaction e (heap st r) act v = Some (tx, cps) \<and>
            identity_sign w tx None = Some sa \<and>
            those (map (\<lambda>cp. map_option (toPSBT e) (identity_sign w cp (Some [0]))) cps) = Some scs
            \<longrightarrow>
              pendingOf (executeContractAction e r act w st) r =
                Some (newPendingTransaction act (wallet_pubkey w) (int (clock st)) v
                        (toPSBT e sa) scs required) \<and>
              errorsOf (trace (executeContractAction e r act w st)) = errorsOf (trace st)) \<and>
         (buildPendingTransaction e (heap st r) act w v required (int (clock st)) = None \<longrightarrow>
            executeContractAction e r act w st = emit (ShowError FailedToCreate) st) \<and>
         (\<forall>x. buildPendingTransaction e ((heap st r)\<lparr>pendingTransaction := x\<rparr>) act w v required
                 (int (clock st)) =
               buildPendingTransaction e (heap st r) act w v required (int (clock st)))"
proof -
  have 1: "pendingOf (executeContractAction e r act w st) r =
                Some (newPendingTransaction act (wallet_pubkey w) (int (clock st)) v
                        (toPSBT e sa) scs required) \<and>
              errorsOf (trace (executeContractAction e r act w st)) = errorsOf (trace st)"
    if a: "createEscrowTransaction e (heap st r) act v = Some (tx, cps) \<and>
            identity_sign w tx None = Some sa \<and>
            those (map (\<lambda>cp. map_option (toPSBT e) (identity_sign w cp (Some [0]))) cps) = Some scs"
    for tx cps sa scs
  proof -
    from a have b: "buildPendingTransaction e (heap st r) act w v required (int (clock st)) =
      Some (newPendingTransaction act (wallet_pubkey w) (int (clock st)) v (toPSBT e sa) scs required)"
      unfolding buildPendingTransaction_def by simp
    show ?thesis
      unfolding executeContractAction_def
      using nf addr funds auth reg b by (simp add: Let_def)
  qed
  have 2: "executeContractAction e r act w st = emit (ShowError FailedToCreate) st"
    if "buildPendingTransaction e (heap st r) act w v required (int (clock st)) = None"
    unfolding executeContractAction_def
    using that nf addr funds auth by (simp add: Let_def)
  have 3: "buildPendingTransaction e ((heap st r)\<lparr>pendingTransaction := x\<rparr>) act w v required
                 (int (clock st)) =
               buildPendingTransaction e (heap st r) act w v required (int (clock st))" for x
    unfolding buildPendingTransaction_def by (simp add: createEscrowTransaction_ignores_pending)
  from 1 2 3 show ?thesis by blast
qed

theorem executeContractAction_overwrites_pending_witness:
  "pendingOf release_pending 0 = Some release_tx \<and>
   toLowerCase ''Refund'' \<noteq> ''fund'' \<and>
   contracts release_pending ''tark0404040402020202'' = Some 0 \<and>
   pendingOf (executeContractAction (demo_env carol [demo_vtxo]) 0 ''Refund'' carol release_pending) 0 =
     Some (newPendingTransaction ''Refund'' carol_pk 0 demo_vtxo [0x70, 1] [[0x71, 1]]
             [carol_pk, alice_pk])"
proof -
  let ?e = "demo_env carol [demo_vtxo]"
  let ?addr = "\<lparr> pkScript = 0x51 # 0x20 # 0x20 # replicate 31 2, encode = ''tark0404040402020202'' \<rparr>"
  have h1: "pendingOf release_pending 0 = Some release_tx"
    by (simp add: release_pending_def)
  have h2: "toLowerCase ''Refund'' \<noteq> ''fund''" by code_simp
  have h3: "contractAddress ?e (heap release_pending 0) = Some ?addr" by code_simp
  have h4: "getVtxos ?e (hex_encode (library ?e) (pkScript ?addr)) = Some (demo_vtxo # [])"
    by (simp add: demo_env_def)
  have h5: "getRequiredSignersForAction ''Refund'' (heap release_pending 0) carol = [carol_pk, alice_pk]"
    by code_simp
  have h6: "[carol_pk, alice_pk] \<noteq> []" by simp
  have h7: "contracts release_pending (encode ?addr) = Some 0"
    by (simp add: release_pending_def demo_state_def)
  have b1: "createEscrowTransaction ?e (heap release_pending 0) ''Refund'' demo_vtxo =
              Some ([0x70], [[0x71]])" by code_simp
  have b2: "identity_sign carol [0x70] None = Some [0x70, 1]"
    by (simp add: carol_def demo_wallet_def)
  have b3: "those (map (\<lambda>cp. map_option (toPSBT ?e) (identity_sign carol cp (Some [0]))) [[0x71]]) =
              Some [[0x71, 1]]"
    by (simp add: carol_def demo_wallet_def demo_env_def)
  have c: "clock release_pending = 0" "wallet_pubkey carol = carol_pk"
    "toPSBT ?e [0x70, 1] = [0x70, 1]"
    by (simp_all add: release_pending_def demo_state_def carol_def demo_wallet_def demo_env_def)
  from executeContractAction_overwrites_pending [OF h1 h2 h3 h4 h5 h6 h7] b1 b2 b3
  have "pendingOf (executeContractAction ?e 0 ''Refund'' carol release_pending) 0 =
          Some (newPendingTransaction ''Refund'' (wallet_pubkey carol)
                  (int (clock release_pending)) demo_vtxo (toPSBT ?e [0x70, 1]) [[0x71, 1]]
                  [carol_pk, alice_pk])"
    by blast
  with h1 h2 h7 c show ?thesis by simp
qed

section \<open>The invariant of the approvals\<close>

lemma invariantI:
  "(\<And>r p. pendingOf st r = Some p \<Longrightarrow> approvalsWithinSigners p) \<Longrightarrow> invariant st"
  unfolding invariant_def by (auto split: option.splits)

lemma invariantD:
  "invariant st \<Longrightarrow> pendingOf st r = Some p \<Longrightarrow> approvalsWithinSigners p"
  unfolding invariant_def by (auto split: option.splits dest: spec [of _ r])

lemma approvalsWithinSignersD:
  "approvalsWithinSigners p \<Longrightarrow> partialTx p = Some t \<Longrightarrow>
   set (approvals t) \<subseteq> set (requiredSigners t) \<union> {initiator p}"
  by (simp add: approvalsWithinSigners_def)

lemma invariant_emit [simp]: "invariant (emit ev st) = invariant st"
  by (simp add: invariant_def)

lemma invariant_timers [simp]: "invariant (st\<lparr>timers := ts\<rparr>) = invariant st"
  by (simp add: invariant_def pendingOf_def)

lemma invariant_clock [simp]: "invariant (st\<lparr>clock := c\<rparr>) = invariant st"
  by (simp add: invariant_def pendingOf_def)

lemma invariant_set_pending:
  assumes "invariant st" "case p of None \<Rightarrow> True | Some q \<Rightarrow> approvalsWithinSigners q"
  shows "invariant (set_pending r p st)"
proof (rule invariantI)
  fix r' q assume "pendingOf (set_pending r p st) r' = Some q"
  then show "approvalsWithinSigners q"
    using assms invariantD [of st r' q] by (auto split: if_splits)
qed

lemma invariant_registerPending:
  assumes "invariant st" "case p of None \<Rightarrow> True | Some q \<Rightarrow> approvalsWithinSigners q"
  shows "invariant (registerPending a p st)"
proof (rule invariantI)
  fix r' q assume "pendingOf (registerPending a p st) r' = Some q"
  then show "approvalsWithinSigners q"
    using assms invariantD [of st r' q] by (auto split: if_splits)
qed

lemma invariant_announcePending [simp]:
  "invariant (announcePending e a p st) = invariant st"
  by (simp add: invariant_def)

lemma invariant_updateContract:
  assumes "invariant st" "case p of None \<Rightarrow> True | Some q \<Rightarrow> approvalsWithinSigners q"
  shows "invariant (updateContractPendingTransaction e a p st)"
  using assms by (simp add: updateContractPendingTransaction_def invariant_registerPending)

lemma invariant_update_partialTx:
  assumes "invariant st"
    and "\<And>p t. pendingOf st r = Some p \<Longrightarrow> partialTx p = Some t \<Longrightarrow>
           set (approvals (f t)) \<subseteq> set (requiredSigners (f t)) \<union> {initiator p}"
  shows "invariant (update_partialTx r f st)"
proof (rule invariantI)
  fix r' q assume a: "pendingOf (update_partialTx r f st) r' = Some q"
  show "approvalsWithinSigners q"
  proof (cases "r' = r")
    case True
    with a obtain p where p: "pendingOf st r = Some p"
      and q: "q = p\<lparr>partialTx := map_option f (partialTx p)\<rparr>" by auto
    show ?thesis
      using assms(2) [OF p] by (cases "partialTx p") (simp_all add: q approvalsWithinSigners_def)
  next
    case False
    with a show ?thesis using invariantD [OF assms(1), of r' q] by simp
  qed
qed

lemma invariant_update_status:
  assumes "invariant st"
  shows "invariant (update_pending r (\<lambda>q. q\<lparr>status := s\<rparr>) st)"
proof (rule invariantI)
  fix r' q assume a: "pendingOf (update_pending r (\<lambda>q. q\<lparr>status := s\<rparr>) st) r' = Some q"
  show "approvalsWithinSigners q"
  proof (cases "r' = r")
    case True
    with a obtain p where p: "pendingOf st r = Some p" and q: "q = p\<lparr>status := s\<rparr>" by auto
    from invariantD [OF assms p] show ?thesis
      by (auto simp: q approvalsWithinSigners_def split: option.splits)
  next
    case False
    with a show ?thesis using invariantD [OF assms, of r' q] by simp
  qed
qed

lemma invariant_pending_case:
  "invariant st \<Longrightarrow> case pendingOf st r of None \<Rightarrow> True | Some q \<Rightarrow> approvalsWithinSigners q"
  by (auto split: option.splits dest: invariantD)

lemma invariant_update_partialTx_same:
  assumes "invariant st"
    and "\<And>t. approvals (f t) = approvals t" "\<And>t. requiredSigners (f t) = requiredSigners t"
  shows "invariant (update_partialTx r f st)"
  using assms(1)
proof (rule invariant_update_partialTx)
  fix p t assume "pendingOf st r = Some p" "partialTx p = Some t"
  then show "set (approvals (f t)) \<subseteq> set (requiredSigners (f t)) \<union> {initiator p}"
    using approvalsWithinSignersD [OF invariantD [OF assms(1)]] assms(2,3) by simp
qed

lemma invariant_sign:
  assumes "invariant st"
  shows "invariant (snd (signTransactionsForUser e r w st))"
proof -
  have a: "invariant (update_partialTx r (\<lambda>t. t\<lparr>arkTx := x\<rparr>) st)" for x
    using assms by (rule invariant_update_partialTx_same) simp_all
  have b: "invariant (update_partialTx r (\<lambda>t. t\<lparr>checkpoints := y\<rparr>)
                        (update_partialTx r (\<lambda>t. t\<lparr>arkTx := x\<rparr>) st))" for x y
    using a [of x] by (rule invariant_update_partialTx_same) simp_all
  show ?thesis
    unfolding signTransactionsForUser_def using assms a b
    by (auto simp: Let_def split: option.splits)
qed

lemma invariant_execute:
  assumes "invariant st"
  shows "invariant (snd (executeMultiSigTransaction e r st))"
  unfolding executeMultiSigTransaction_def using assms
  by (auto simp: Let_def invariant_updateContract invariant_set_pending split: option.splits)

lemma invariant_approve:
  assumes inv: "invariant st"
  shows "invariant (approvePendingTransaction e r w st)"
proof (cases "pendingOf st r")
  case None
  then show ?thesis using inv
    unfolding approvePendingTransaction_def by (simp add: pendingOf_heap)
next
  case (Some p)
  show ?thesis
  proof (cases "partialTx p")
    case None
    with Some show ?thesis using inv
      unfolding approvePendingTransaction_def by (simp add: pendingOf_heap)
  next
    case ptx: (Some ptx)
    let ?st0 = "emit (ShowInfo Signing) st"
    obtain ok st1 where s: "signTransactionsForUser e r w ?st0 = (ok, st1)"
      by (cases "signTransactionsForUser e r w ?st0")
    have i1: "invariant st1"
      using invariant_sign [of ?st0 e r w] inv s by simp
    let ?st2 = "update_partialTx r (\<lambda>t. t\<lparr>approvals := approvals t @ [wallet_pubkey w]\<rparr>) st1"
    have rs: "pendingOf st1 r = Some q \<Longrightarrow> partialTx q = Some t \<Longrightarrow>
              requiredSigners t = requiredSigners ptx" for q t
      using s Some ptx unfolding signTransactionsForUser_def
      by (auto simp: pendingOf_heap Let_def split: option.splits)
    have i2: "invariant ?st2" if "wallet_pubkey w \<in> set (requiredSigners ptx)"
      using i1
    proof (rule invariant_update_partialTx)
      fix q t assume q: "pendingOf st1 r = Some q" "partialTx q = Some t"
      from approvalsWithinSignersD [OF invariantD [OF i1 q(1)] q(2)] rs [OF q] that
      show "set (approvals (t\<lparr>approvals := approvals t @ [wallet_pubkey w]\<rparr>))
            \<subseteq> set (requiredSigners (t\<lparr>approvals := approvals t @ [wallet_pubkey w]\<rparr>)) \<union>
               {initiator q}" by auto
    qed
    show ?thesis
      unfolding approvePendingTransaction_def
      using Some ptx s inv i1 i2 invariant_execute [of ?st2 e r]
            invariant_pending_case [of ?st2 r]
      by (auto simp: pendingOf_heap Let_def invariant_updateContract
               simp del: pendingOf_update_partialTx
               split: option.splits prod.splits bool.splits)
  qed
qed

lemma invariant_reject:
  assumes inv: "invariant st"
  shows "invariant (rejectPendingTransaction e r w st)"
proof -
  have a: "invariant (update_partialTx r (\<lambda>t. t\<lparr>rejections := rejections t @ [x]\<rparr>) st)" for x
    using inv by (rule invariant_update_partialTx_same) simp_all
  have b: "invariant st1 \<Longrightarrow>
    invariant (updateContractPendingTransaction e a'
       (pendingOf (update_pending r (\<lambda>q. q\<lparr>status := rejected\<rparr>) st1) r)
       (emit ev (update_pending r (\<lambda>q. q\<lparr>status := rejected\<rparr>) st1)
          \<lparr>timers := ts\<rparr>))" for st1 a' ev ts
  proof -
    assume i: "invariant st1"
    let ?s = "update_pending r (\<lambda>q. q\<lparr>status := rejected\<rparr>) st1"
    have j: "invariant ?s" using i by (rule invariant_update_status)
    then have "invariant (emit ev ?s\<lparr>timers := ts\<rparr>)" by simp
    then show ?thesis
      by (rule invariant_updateContract) (rule invariant_pending_case [OF j])
  qed
  show ?thesis
    unfolding rejectPendingTransaction_def
    using inv a b [of st] b [of "update_partialTx r (\<lambda>t. t\<lparr>rejections := rejections t @ [wallet_pubkey w]\<rparr>) st"]
    by (simp add: pendingOf_heap Let_def pendingOf_def [of "_\<lparr>timers := _\<rparr>"]
             del: pendingOf_update_pending pendingOf_update_partialTx
             split: option.splits)
qed

lemma invariant_clearRejected: "invariant st \<Longrightarrow> invariant (clearRejected e r st)"
  unfolding clearRejected_def
  by (simp add: Let_def invariant_updateContract invariant_set_pending)

lemma invariant_runTimer: "invariant st \<Longrightarrow> invariant (runTimer e st)"
  unfolding runTimer_def by (auto split: option.splits intro: invariant_clearRejected)

lemma invariant_advance: "invariant st \<Longrightarrow> invariant (advance d st)"
  unfolding advance_def by simp

lemma invariant_sendTransaction [simp]: "invariant (sendTransaction e a st) = invariant st"
  unfolding sendTransaction_def by (simp add: Let_def split: option.splits)

lemma newPendingTransaction_fresh:
  "approvalsWithinSigners (newPendingTransaction act pk now v a cs required)"
  by (simp add: approvalsWithinSigners_def newPendingTransaction_def)

lemma buildPendingTransaction_new:
  "buildPendingTransaction e contract act w v required now = Some p \<Longrightarrow>
   \<exists>a cs. p = newPendingTransaction act (wallet_pubkey w) now v a cs required"
  unfolding buildPendingTransaction_def
  by (auto simp: bind_eq_Some_conv)

lemma invariant_create:
  assumes inv: "invariant st"
  shows "invariant (executeContractAction e r act w st)"
  unfolding executeContractAction_def using inv
  by (auto simp: Let_def invariant_registerPending newPendingTransaction_fresh
           split: option.splits dest!: buildPendingTransaction_new)

lemma invariant_step: "invariant st \<Longrightarrow> invariant (step e c st)"
  by (cases c)
     (simp_all add: invariant_create invariant_approve invariant_reject invariant_runTimer
                    invariant_advance)

lemma invariant_run: "invariant st \<Longrightarrow> invariant (run ops st)"
  by (induction ops arbitrary: st) (auto simp: invariant_step)

text \<open>
  C5. From a state in which every contract satisfies the invariant (in particular one
  without any pending transaction), every run of creates, approves, rejects, timer
  callbacks and clock steps leads to a state in which the approvals of every pending
  transaction are among its required signers and its initiator. And whatever pending
  transaction a create writes has the initiator as its only approval, no rejection, and
  required signers that exclude the initiator.
\<close>

theorem approvals_within_signers:
  "(invariant st \<longrightarrow>
      (\<forall>r' p ptx. pendingOf (run ops st) r' = Some p \<and> partialTx p = Some ptx \<longrightarrow>
         set (approvals ptx) \<subseteq> set (requiredSigners ptx) \<union> {initiator p})) \<and>
   (\<forall>r'. pendingOf (executeContractAction e r act w st) r' = pendingOf st r' \<or>
      (\<exists>p ptx. pendingOf (executeContractAction e r act w st) r' = Some p \<and>
         partialTx p = Some ptx \<and> initiator p = wallet_pubkey w \<and>
         approvals ptx = [initiator p] \<and> rejections ptx = [] \<and>
         initiator p \<notin> set (requiredSigners ptx) \<and>
         set (requiredSigners ptx) \<inter> set (approvals ptx) = {}))"
proof (intro conjI impI allI)
  fix r' p ptx
  assume "invariant st" and a: "pendingOf (run ops st) r' = Some p \<and> partialTx p = Some ptx"
  then have "invariant (run ops st)" by (simp add: invariant_run)
  from approvalsWithinSignersD [OF invariantD [OF this]] a
  show "set (approvals ptx) \<subseteq> set (requiredSigners ptx) \<union> {initiator p}" by blast
next
  fix r'
  show "pendingOf (executeContractAction e r act w st) r' = pendingOf st r' \<or>
      (\<exists>p ptx. pendingOf (executeContractAction e r act w st) r' = Some p \<and>
         partialTx p = Some ptx \<and> initiator p = wallet_pubkey w \<and>
         approvals ptx = [initiator p] \<and> rejections ptx = [] \<and>
         initiator p \<notin> set (requiredSigners ptx) \<and>
         set (requiredSigners ptx) \<inter> set (approvals ptx) = {})"
    unfolding executeContractAction_def
    by (auto simp: Let_def sendTransaction_def newPendingTransaction_def
             split: option.splits dest!: buildPendingTransaction_new)
qed

theorem approvals_within_signers_witness:
  "invariant demo_state \<and>
   map_option approvals
     (partialOf (run [(demo_env bob [demo_vtxo], Create 0 ''Release'' bob),
                      (offline_env alice [demo_vtxo], Approve 0 alice),
                      (demo_env alice [demo_vtxo], Reject 0 alice)] demo_state) 0) =
     Some [bob_pk, alice_pk] \<and>
   (case pendingOf (run [(demo_env bob [demo_vtxo], Create 0 ''Release'' bob),
                         (offline_env alice [demo_vtxo], Approve 0 alice),
                         (demo_env alice [demo_vtxo], Reject 0 alice)] demo_state) 0 of
      None \<Rightarrow> False
    | Some p \<Rightarrow>
        (case partialTx p of
           None \<Rightarrow> False
         | Some ptx \<Rightarrow> set (approvals ptx) \<subseteq> set (requiredSigners ptx) \<union> {initiator p}))"
proof -
  let ?st = "run [(demo_env bob [demo_vtxo], Create 0 ''Release'' bob),
                  (offline_env alice [demo_vtxo], Approve 0 alice),
                  (demo_env alice [demo_vtxo], Reject 0 alice)] demo_state"
  have i: "invariant demo_state"
    by (simp add: invariant_def pendingOf_def demo_state_def demo_contract_def)
  have a: "map_option approvals (partialOf ?st 0) = Some [bob_pk, alice_pk]" by code_simp
  then obtain p ptx where p: "pendingOf ?st 0 = Some p" "partialTx p = Some ptx"
    by (auto simp: partialOf_def bind_eq_Some_conv)
  from approvals_within_signers
         [of demo_state "[(demo_env bob [demo_vtxo], Create 0 ''Release'' bob),
                          (offline_env alice [demo_vtxo], Approve 0 alice),
                          (demo_env alice [demo_vtxo], Reject 0 alice)]"] i p
  have "set (approvals ptx) \<subseteq> set (requiredSigners ptx) \<union> {initiator p}" by blast
  with i a p show ?thesis by simp
qed

section \<open>Rejection and the grace delay\<close>

text \<open>
  No approval, rejection or timer callback changes the status of an existing pending
  transaction except to \<open>rejected\<close>: once a contract's pending transaction is rejected, it
  stays rejected until it is absent.
\<close>

lemma statusOf_emit [simp]: "statusOf (emit ev st) r = statusOf st r"
  by (simp add: statusOf_def)

lemma statusOf_sign:
  "statusOf (snd (signTransactionsForUser e r w st)) r' = statusOf st r'"
  unfolding signTransactionsForUser_def statusOf_def
  by (auto simp: Let_def pendingOf_heap option.map_comp comp_def split: option.splits)

lemma statusOf_execute:
  "statusOf (snd (executeMultiSigTransaction e r st)) r' = statusOf st r' \<or>
   statusOf (snd (executeMultiSigTransaction e r st)) r' = None"
  unfolding executeMultiSigTransaction_def statusOf_def
  by (auto simp: Let_def pendingOf_heap split: option.splits)

lemma approve_keeps_status:
  "statusOf (approvePendingTransaction e r w st) r = statusOf st r \<or>
   statusOf (approvePendingTransaction e r w st) r = None"
proof -
  define good where "good X \<longleftrightarrow> statusOf X r = statusOf st r \<or> statusOf X r = None" for X
  let ?st0 = "emit (ShowInfo Signing) st"
  obtain ok st1 where s: "signTransactionsForUser e r w ?st0 = (ok, st1)"
    by (cases "signTransactionsForUser e r w ?st0")
  let ?st2 = "update_partialTx r (\<lambda>t. t\<lparr>approvals := approvals t @ [wallet_pubkey w]\<rparr>) st1"
  obtain ok3 st3 where x: "executeMultiSigTransaction e r ?st2 = (ok3, st3)"
    by (cases "executeMultiSigTransaction e r ?st2")
  have g0: "good st" by (simp add: good_def)
  have ge: "good (emit ev X) = good X" for ev X by (simp add: good_def)
  have g1: "good st1"
    using statusOf_sign [of e r w ?st0 r] s by (simp add: good_def)
  have s2: "statusOf ?st2 r = statusOf st1 r"
    by (simp add: statusOf_def option.map_comp comp_def)
  have g2: "good ?st2" using g1 s2 by (simp add: good_def)
  have g3: "good st3"
    using statusOf_execute [of e r ?st2 r] x g2 by (auto simp: good_def)
  have g4: "pendingOf ?st2 r = Some q \<Longrightarrow>
              good (updateContractPendingTransaction e a (Some q) (emit ev ?st2))" for a ev q
    using g2 by (auto simp: good_def statusOf_def simp del: pendingOf_update_partialTx)
  have "good (approvePendingTransaction e r w st)"
    unfolding approvePendingTransaction_def
    using s x g0 g1 g2 g3 g4
    by (auto simp: pendingOf_heap Let_def ge simp del: pendingOf_update_partialTx
             split: option.splits bool.splits)
  then show ?thesis by (simp add: good_def)
qed

lemma reject_keeps_status:
  "statusOf (rejectPendingTransaction e r w st) r = statusOf st r \<or>
   statusOf (rejectPendingTransaction e r w st) r = Some rejected"
proof (cases "\<exists>p ptx. pendingOf st r = Some p \<and> partialTx p = Some ptx \<and>
                       wallet_pubkey w \<in> set (requiredSigners ptx)")
  case True
  then show ?thesis using reject_marks_rejected [of st r _ _ w e] by blast
next
  case False
  then have "\<exists>ev. rejectPendingTransaction e r w st = emit ev st"
    unfolding rejectPendingTransaction_def
    by (auto simp: pendingOf_heap split: option.splits)
  then show ?thesis by auto
qed

lemma clearRejected_keeps_status:
  "statusOf (clearRejected e r' st) r = statusOf st r \<or> statusOf (clearRejected e r' st) r = None"
  unfolding clearRejected_def statusOf_def by (auto simp: Let_def)

lemma runTimer_keeps_status:
  "statusOf (runTimer e st) r = statusOf st r \<or> statusOf (runTimer e st) r = None"
proof (cases "takeDue (clock st) (timers st)")
  case None
  then show ?thesis by (simp add: runTimer_def)
next
  case (Some a)
  obtain r' ts where a: "a = (r', ts)" by (cases a)
  have "statusOf (st\<lparr>timers := ts\<rparr>) r = statusOf st r"
    by (simp add: statusOf_def pendingOf_def)
  with clearRejected_keeps_status [of e r' "st\<lparr>timers := ts\<rparr>" r] Some a
  show ?thesis by (simp add: runTimer_def)
qed

lemma advance_keeps_status: "statusOf (advance d st) r = statusOf st r"
  by (simp add: advance_def statusOf_def pendingOf_def)

lemma rejected_step:
  assumes "statusOf st r = None \<or> statusOf st r = Some rejected" "onContract r c"
  shows "statusOf (step e c st) r = None \<or> statusOf (step e c st) r = Some rejected"
proof (cases c)
  case (Create r' act w)
  with assms show ?thesis by simp
next
  case (Approve r' w)
  with assms approve_keeps_status [of e r w st] show ?thesis by auto
next
  case (Reject r' w)
  with assms reject_keeps_status [of e r w st] show ?thesis by auto
next
  case RunTimer
  with assms runTimer_keeps_status [of e st r] show ?thesis by auto
next
  case (Advance d)
  with assms show ?thesis by (simp add: advance_keeps_status)
qed

lemma rejected_never_pending_again:
  assumes "statusOf st r = None \<or> statusOf st r = Some rejected"
    and "list_all (\<lambda>(e, c). onContract r c) ops"
  shows "statusOf (run ops st) r = None \<or> statusOf (run ops st) r = Some rejected"
  using assms
proof (induction ops arbitrary: st)
  case Nil
  then show ?case by simp
next
  case (Cons x ops)
  obtain e c where x: "x = (e, c)" by (cases x)
  from Cons.prems x have "onContract r c" "list_all (\<lambda>(e, c). onContract r c) ops" by simp_all
  with Cons.IH [of "step e c st"] rejected_step [OF Cons.prems(1), of c e] x
  show ?case by simp
qed

text \<open>
  C9. The specification expects a rejected pending transaction to stay until the grace
  delay has elapsed. Alice rejects the release: the status is \<open>rejected\<close> at once and the clearing is
  scheduled for 3000 ms later. She then approves, which is accepted for lack of a guard on
  rejections or status, and the execution clears the pending transaction while the clock
  still reads 0 and the timer has not fired.
\<close>

theorem rejected_cleared_before_grace_delay:
  "statusOf rejected_release 0 = Some rejected \<and>
   timers rejected_release = [(3000, 0)] \<and>
   clock rejected_release = 0 \<and>
   pendingOf (approvePendingTransaction (demo_env alice [demo_vtxo]) 0 alice rejected_release) 0 =
     None \<and>
   clock (approvePendingTransaction (demo_env alice [demo_vtxo]) 0 alice rejected_release) = 0 \<and>
   takeDue (clock (approvePendingTransaction (demo_env alice [demo_vtxo]) 0 alice rejected_release))
     (timers (approvePendingTransaction (demo_env alice [demo_vtxo]) 0 alice rejected_release)) =
     None \<and>
   timers (approvePendingTransaction (demo_env alice [demo_vtxo]) 0 alice rejected_release) =
     [(3000, 0)]"
  by code_simp

text \<open>
  The timer callback clears whatever pending transaction its contract object holds when it
  fires. After the release is rejected at time 0, a refund is created at 1000 and rejected
  at 2000; the callback of the first rejection fires at 3000 and clears the refund, 2000 ms
  before its own grace delay ends.
\<close>

lemma stale_timer_clears_newer_pending:
  "map_option action
     (pendingOf (run [(demo_env alice [demo_vtxo], Reject 0 alice),
                      (demo_env alice [demo_vtxo], Advance 1000),
                      (demo_env carol [demo_vtxo], Create 0 ''Refund'' carol),
                      (demo_env alice [demo_vtxo], Advance 1000),
                      (demo_env alice [demo_vtxo], Reject 0 alice),
                      (demo_env alice [demo_vtxo], Advance 1000)] release_pending) 0) =
     Some ''Refund'' \<and>
   timers (run [(demo_env alice [demo_vtxo], Reject 0 alice),
                (demo_env alice [demo_vtxo], Advance 1000),
                (demo_env carol [demo_vtxo], Create 0 ''Refund'' carol),
                (demo_env alice [demo_vtxo], Advance 1000),
                (demo_env alice [demo_vtxo], Reject 0 alice),
                (demo_env alice [demo_vtxo], Advance 1000)] release_pending) =
     [(3000, 0), (5000, 0)] \<and>
   clock (run [(demo_env alice [demo_vtxo], Reject 0 alice),
               (demo_env alice [demo_vtxo], Advance 1000),
               (demo_env carol [demo_vtxo], Create 0 ''Refund'' carol),
               (demo_env alice [demo_vtxo], Advance 1000),
               (demo_env alice [demo_vtxo], Reject 0 alice),
               (demo_env alice [demo_vtxo], Advance 1000),
               (demo_env alice [demo_vtxo], RunTimer)] release_pending) = 3000 \<and>
   pendingOf (run [(demo_env alice [demo_vtxo], Reject 0 alice),
                   (demo_env alice [demo_vtxo], Advance 1000),
                   (demo_env carol [demo_vtxo], Create 0 ''Refund'' carol),
                   (demo_env alice [demo_vtxo], Advance 1000),
                   (demo_env alice [demo_vtxo], Reject 0 alice),
                   (demo_env alice [demo_vtxo], Advance 1000),
                   (demo_env alice [demo_vtxo], RunTimer)] release_pending) 0 = None"
  by code_simp

end
